theory Spec2Isabelle
  imports Main "HOL-Library.Word"
begin

section \<open>Data model of the registry\<close>

text \<open>
  A Go \<^verbatim>\<open>[]byte\<close> is a list of 8-bit characters, a Go \<^verbatim>\<open>string\<close> likewise.
  A Go \<^verbatim>\<open>int\<close> (64 bit) is an \<^typ>\<open>int\<close>; no handler below computes with values
  near the 64-bit bounds, except where a parse rejects them.
\<close>

type_synonym bytes = string

text \<open>A transaction handle of the metadata store; \<open>NilTxn\<close> is the nil handle.\<close>

datatype txn = NilTxn | Txn nat

text \<open>
  The rows written by the handlers. The declarations of \<^verbatim>\<open>types.Blob\<close>,
  \<^verbatim>\<open>types.LayerV2\<close>, \<^verbatim>\<open>types.ConfigV2\<close> and \<^verbatim>\<open>types.ImageManifestV2\<close>
  are read off the struct literals of the handlers; each field carries its struct's
  name since several structs share field names.
\<close>

record Blob =
  Blob_Digest :: string
  Blob_Skylink :: string
  Blob_UUID :: string
  Blob_RangeStart :: "32 word"
  Blob_RangeEnd :: "32 word"

record LayerV2 =
  LayerV2_MediaType :: string
  LayerV2_Digest :: string
  LayerV2_SkynetLink :: string
  LayerV2_UUID :: string
  LayerV2_BlobDigests :: "string list"
  LayerV2_Size :: int

record ConfigV2 =
  ConfigV2_UUID :: string
  ConfigV2_Namespace :: string
  ConfigV2_Reference :: string
  ConfigV2_Digest :: string
  ConfigV2_Skylink :: string
  ConfigV2_MediaType :: string
  ConfigV2_Layers :: "string list"
  ConfigV2_Size :: int

record ImageManifestV2 =
  ImageManifestV2_Uuid :: string
  ImageManifestV2_Namespace :: string
  ImageManifestV2_MediaType :: string
  ImageManifestV2_SchemaVersion :: int

text \<open>The part of the pushed manifest JSON that \<^verbatim>\<open>PushManifest\<close> reads: the layer digests.\<close>

record ImageManifest =
  ImageManifest_Layers :: "string list"

text \<open>\<^verbatim>\<open>TxnStore\<close>: the value of \<^verbatim>\<open>registry.txnMap\<close>; the timeout is a duration in nanoseconds.\<close>

record TxnStore =
  txn :: txn
  blobDigests :: "string list"
  timeout :: int

text \<open>
  A Go slice of strings: the nil slice, or a slice with a backing array, of which
  \<open>elems\<close> are the elements below its length and \<open>spare\<close> the rest of the array up
  to the capacity. The nil slice has length and capacity zero.
\<close>

datatype slice =
  NilSlice
| Slice (elems: "string list") (spare: "string list")
where
  "elems NilSlice = []"
| "spare NilSlice = []"

text \<open>
  What \<^verbatim>\<open>encoding/json\<close> writes for a slice of strings: \<^verbatim>\<open>null\<close> for the nil slice,
  an array otherwise.
\<close>

datatype json_strings = JNull | JArray "string list"

definition json_Marshal :: "slice \<Rightarrow> json_strings" where
  "json_Marshal s = (case s of NilSlice \<Rightarrow> JNull | Slice es sp \<Rightarrow> JArray es)"

text \<open>
  The errors of \<^verbatim>\<open>strconv.ParseInt\<close> and \<^verbatim>\<open>fmt.Sscanf\<close>, by kind: a number with
  bad syntax or out of range (with the text that was parsed), no digit where an integer is
  expected, a newline in the input, a literal of the format that the input does not match,
  and the end of the input where a verb or a literal of the format needs more.
\<close>

datatype lib_error =
  NumErrorSyntax string
| NumErrorRange string
| ExpectedInteger
| UnexpectedNewline
| InputDoesNotMatchFormat
| EndOfInputAtVerb
| EndOfInputAtLiteral

subsection \<open>Calls to the external collaborators\<close>

text \<open>
  The metadata store and the object store are interfaces whose implementations are
  outside the handlers. Every mutating call a handler makes on them is appended to a log,
  in program order, with its arguments.
\<close>

datatype call =
  Upload string string bytes
| NewTxn
| SetBlob txn Blob
| SetLayer txn LayerV2
| SetManifest txn ImageManifestV2
| SetConfig txn ConfigV2
| DeleteLayerV2 txn string
| DeleteBlobV2 txn string
| Commit txn
| Abort txn

text \<open>
  The outcome of every call on a collaborator, and the helper functions of the package
  that are declared elsewhere (\<^verbatim>\<open>digest\<close>, \<^verbatim>\<open>getHttpUrlFromSkylink\<close>,
  \<^verbatim>\<open>uuid.New\<close>, \<^verbatim>\<open>json.Unmarshal\<close>), are parameters of the model. An error of a
  collaborator is its message: \<open>Inl msg\<close>, or \<open>Some msg\<close> for a call that returns only
  an error. \<open>Error\<close> is the message (\<^verbatim>\<open>err.Error()\<close>) of an error of the standard
  library.
\<close>

record env =
  digest :: "bytes \<Rightarrow> string"
  Error :: "lib_error \<Rightarrow> string"
  getHttpUrlFromSkylink :: "string \<Rightarrow> string"
  uuid_New :: string
  uuid_NewString :: string
  json_Unmarshal :: "bytes \<Rightarrow> string + ImageManifest"
  skynet_Upload :: "string \<Rightarrow> string \<Rightarrow> bytes \<Rightarrow> string + string"
  skynet_Download :: "string \<Rightarrow> string + (bytes \<times> string option)"
  store_NewTxn :: "txn \<times> string option"
  store_SetBlob :: "txn \<Rightarrow> Blob \<Rightarrow> string option"
  store_SetLayer :: "txn \<Rightarrow> LayerV2 \<Rightarrow> string option"
  store_SetManifest :: "txn \<Rightarrow> ImageManifestV2 \<Rightarrow> string option"
  store_SetConfig :: "txn \<Rightarrow> ConfigV2 \<Rightarrow> string option"
  store_DeleteLayerV2 :: "txn \<Rightarrow> string \<Rightarrow> string option"
  store_DeleteBlobV2 :: "txn \<Rightarrow> string \<Rightarrow> string option"
  store_Commit :: "txn \<Rightarrow> string option"
  store_Abort :: "txn \<Rightarrow> string option"
  store_GetLayer :: "string \<Rightarrow> string + LayerV2"
  store_GetImageTags :: "string \<Rightarrow> string + slice"

subsection \<open>Requests and responses\<close>

text \<open>
  The request as the handlers read it through \<^verbatim>\<open>echo.Context\<close>. The body is what
  reading the stream to its end yields: the bytes read and the read error, if any.
\<close>

text \<open>
  The claims of a token as the ACL reads them: \<open>Claims subject\<close> is a value of the
  package's \<^verbatim>\<open>*Claims\<close> type with its \<^verbatim>\<open>Subject\<close> field, \<open>ForeignClaims\<close> any
  other implementation of \<^verbatim>\<open>jwt.Claims\<close>. The context value under \<^verbatim>\<open>"user"\<close> is a
  \<^verbatim>\<open>*jwt.Token\<close> or something else.
\<close>

datatype claims = Claims string | ForeignClaims

datatype ctx_value = JwtToken claims | OtherValue

record request =
  Method :: string
  params :: "(string \<times> string) list"
  query :: "(string \<times> string) list"
  header :: "(string \<times> string) list"
  Body :: "bytes \<times> string option"
  user :: "ctx_value option"

definition lookup :: "(string \<times> string) list \<Rightarrow> string \<Rightarrow> string" where
  "lookup kvs k = (case map_of kvs k of None \<Rightarrow> [] | Some v \<Rightarrow> v)"

definition Param :: "request \<Rightarrow> string \<Rightarrow> string" where
  "Param ctx k = lookup (params ctx) k"

definition QueryParam :: "request \<Rightarrow> string \<Rightarrow> string" where
  "QueryParam ctx k = lookup (query ctx) k"

text \<open>
  \<^verbatim>\<open>Header.Get\<close> looks a header up under its canonical name: the first letter and
  every letter after a hyphen in upper case, the others in lower case. The headers of a
  request are stored under their canonical names.
\<close>

definition toUpper :: "char \<Rightarrow> char" where
  "toUpper c =
     (case map_of (zip ''abcdefghijklmnopqrstuvwxyz'' ''ABCDEFGHIJKLMNOPQRSTUVWXYZ'') c of
        None \<Rightarrow> c | Some u \<Rightarrow> u)"

definition toLower :: "char \<Rightarrow> char" where
  "toLower c =
     (case map_of (zip ''ABCDEFGHIJKLMNOPQRSTUVWXYZ'' ''abcdefghijklmnopqrstuvwxyz'') c of
        None \<Rightarrow> c | Some l \<Rightarrow> l)"

fun canonical :: "bool \<Rightarrow> string \<Rightarrow> string" where
  "canonical up [] = []"
| "canonical up (c # cs) =
     (if up then toUpper c else toLower c) # canonical (c = CHR ''-'') cs"

definition CanonicalMIMEHeaderKey :: "string \<Rightarrow> string" where
  "CanonicalMIMEHeaderKey k = canonical True k"

definition Header_Get :: "request \<Rightarrow> string \<Rightarrow> string" where
  "Header_Get ctx k = lookup (header ctx) (CanonicalMIMEHeaderKey k)"

text \<open>One entry of the registry error envelope; the detail map holds strings only.\<close>

record RegistryError =
  Code :: string
  Message :: string
  Detail :: "(string \<times> string) list"

text \<open>
  What a handler sends: the value whose encoding is the body. \<open>JSONErrors\<close> is the
  error envelope, \<open>JSONMap\<close> a flat JSON object, \<open>JSONTags\<close> the tag listing
  (the name, and the tags as \<^verbatim>\<open>encoding/json\<close> writes them), \<open>BlobBody\<close> a content
  type with raw bytes.
\<close>

datatype payload =
  NoContent
| JSONErrors "RegistryError list"
| JSONMap "(string \<times> string) list"
| JSONTags string json_strings
| BlobBody string bytes
| StringBody string

record response =
  status :: nat
  headers :: "(string \<times> string) list"
  payload :: payload

text \<open>The mutable fields of the registry, and the log of calls made so far.\<close>

record registry =
  uploads :: "string \<rightharpoonup> bytes"
  txnMap :: "string \<rightharpoonup> TxnStore"
  calls :: "call list"

subsection \<open>Constants\<close>

text \<open>
  The declarations of the \<^verbatim>\<open>RegistryErrorCode...\<close> constants are not among the source
  files; each value below is the standard error code of that name in the specification's
  list of codes.
\<close>

text \<open>Modelled from the spec: the value of \<^verbatim>\<open>RegistryErrorCodeUnknown\<close>, whose declaration is missing.\<close>

definition RegistryErrorCodeUnknown :: string where
  "RegistryErrorCodeUnknown = ''UNKNOWN''"

text \<open>Modelled from the spec: the value of \<^verbatim>\<open>RegistryErrorCodeBlobUnknown\<close>, whose declaration is missing.\<close>

definition RegistryErrorCodeBlobUnknown :: string where
  "RegistryErrorCodeBlobUnknown = ''BLOB_UNKNOWN''"

text \<open>Modelled from the spec: the value of \<^verbatim>\<open>RegistryErrorCodeBlobUploadInvalid\<close>, whose declaration is missing.\<close>

definition RegistryErrorCodeBlobUploadInvalid :: string where
  "RegistryErrorCodeBlobUploadInvalid = ''BLOB_UPLOAD_INVALID''"

text \<open>Modelled from the spec: the value of \<^verbatim>\<open>RegistryErrorCodeBlobUploadUnknown\<close>, whose declaration is missing.\<close>

definition RegistryErrorCodeBlobUploadUnknown :: string where
  "RegistryErrorCodeBlobUploadUnknown = ''BLOB_UPLOAD_UNKNOWN''"

text \<open>Modelled from the spec: the value of \<^verbatim>\<open>RegistryErrorCodeDigestInvalid\<close>, whose declaration is missing.\<close>

definition RegistryErrorCodeDigestInvalid :: string where
  "RegistryErrorCodeDigestInvalid = ''DIGEST_INVALID''"

text \<open>Modelled from the spec: the value of \<^verbatim>\<open>RegistryErrorCodeManifestBlobUnknown\<close>, whose declaration is missing.\<close>

definition RegistryErrorCodeManifestBlobUnknown :: string where
  "RegistryErrorCodeManifestBlobUnknown = ''MANIFEST_BLOB_UNKNOWN''"

text \<open>Modelled from the spec: the value of \<^verbatim>\<open>RegistryErrorCodeTagInvalid\<close>, whose declaration is missing.\<close>

definition RegistryErrorCodeTagInvalid :: string where
  "RegistryErrorCodeTagInvalid = ''TAG_INVALID''"

text \<open>The status codes of \<^verbatim>\<open>net/http\<close>.\<close>

definition StatusOK :: nat where "StatusOK = 200"
definition StatusCreated :: nat where "StatusCreated = 201"
definition StatusAccepted :: nat where "StatusAccepted = 202"
definition StatusBadRequest :: nat where "StatusBadRequest = 400"
definition StatusUnauthorized :: nat where "StatusUnauthorized = 401"
definition StatusNotFound :: nat where "StatusNotFound = 404"
definition StatusRequestedRangeNotSatisfiable :: nat where
  "StatusRequestedRangeNotSatisfiable = 416"
definition StatusInternalServerError :: nat where "StatusInternalServerError = 500"

section \<open>Library functions the handlers call\<close>

subsection \<open>Printing and scanning decimal integers\<close>

fun digits :: "nat \<Rightarrow> string" where
  "digits n =
     (if n < 10 then [''0123456789'' ! n]
      else digits (n div 10) @ [''0123456789'' ! (n mod 10)])"

declare digits.simps [simp del]

text \<open>\<^verbatim>\<open>fmt.Sprintf("%d", i)\<close>.\<close>

definition Itoa :: "int \<Rightarrow> string" where
  "Itoa i = (if i < 0 then CHR ''-'' # digits (nat (- i)) else digits (nat i))"

definition isDigit :: "char \<Rightarrow> bool" where
  "isDigit c = (c \<in> set ''0123456789'')"

definition digitVal :: "char \<Rightarrow> int" where
  "digitVal c = int (of_char c) - 48"

text \<open>
  \<^verbatim>\<open>strconv.ParseUint(s, 10, bitSize)\<close> reads the digits from the left and stops at the
  first byte that is not a decimal digit (a syntax error) or at the first digit with which
  the value exceeds \<open>maxVal = 2^bitSize - 1\<close> (a range error), whichever comes first.
\<close>

datatype num_err = SyntaxErr | RangeErr

fun ParseUint_loop :: "int \<Rightarrow> int \<Rightarrow> string \<Rightarrow> num_err + int" where
  "ParseUint_loop maxVal n [] = Inr n"
| "ParseUint_loop maxVal n (c # cs) =
     (if \<not> isDigit c then Inl SyntaxErr
      else if maxVal < 10 * n + digitVal c then Inl RangeErr
      else ParseUint_loop maxVal (10 * n + digitVal c) cs)"

definition ParseUint :: "string \<Rightarrow> nat \<Rightarrow> num_err + int" where
  "ParseUint s bitSize =
     (if s = [] then Inl SyntaxErr else ParseUint_loop (2 ^ bitSize - 1) 0 s)"

text \<open>
  \<^verbatim>\<open>strconv.ParseInt(s, 10, bitSize)\<close>: an optional sign, then \<^verbatim>\<open>ParseUint\<close> on the
  rest; the value must fit \<open>bitSize\<close> bits, two's complement. The error carries the whole
  of \<open>s\<close>.
\<close>

definition ParseInt :: "string \<Rightarrow> nat \<Rightarrow> lib_error + int" where
  "ParseInt s bitSize =
     (if s = [] then Inl (NumErrorSyntax s)
      else
        let neg = (hd s = CHR ''-'');
            ds = (if hd s = CHR ''+'' \<or> hd s = CHR ''-'' then tl s else s)
        in case ParseUint ds bitSize of
             Inl SyntaxErr \<Rightarrow> Inl (NumErrorSyntax s)
           | Inl RangeErr \<Rightarrow> Inl (NumErrorRange s)
           | Inr un \<Rightarrow>
               if \<not> neg \<and> 2 ^ (bitSize - 1) \<le> un then Inl (NumErrorRange s)
               else if neg \<and> 2 ^ (bitSize - 1) < un then Inl (NumErrorRange s)
               else Inr (if neg then - un else un))"

text \<open>
  The number of bytes of the space character at the head of the input, in UTF-8, or \<open>0\<close>
  when there is none. The spaces of \<^verbatim>\<open>fmt\<close> are U+0009 to U+000D, U+0020, U+0085,
  U+00A0, U+1680, U+2000 to U+200A, U+2028, U+2029, U+202F, U+205F and U+3000; the newline
  U+000A is left to \<open>SkipSpace\<close>.
\<close>

definition spaceLen :: "string \<Rightarrow> nat" where
  "spaceLen s =
     (case map of_char s of
        [] \<Rightarrow> 0
      | b # bs \<Rightarrow>
          if b = (0x09::nat) \<or> b = 0x0B \<or> b = 0x0C \<or> b = 0x0D \<or> b = 0x20 then 1
          else if b = 0xC2 then
            (case bs of
               d # _ \<Rightarrow> if d = 0x85 \<or> d = 0xA0 then 2 else 0
             | [] \<Rightarrow> 0)
          else if b = 0xE1 then (if take 2 bs = [0x9A, 0x80] then 3 else 0)
          else if b = 0xE2 then
            (case bs of
               d # e # _ \<Rightarrow>
                 if d = 0x80 \<and> (0x80 \<le> e \<and> e \<le> 0x8A \<or> e = 0xA8 \<or> e = 0xA9 \<or> e = 0xAF)
                    \<or> d = 0x81 \<and> e = 0x9F
                 then 3 else 0
             | _ \<Rightarrow> 0)
          else if b = 0xE3 then (if take 2 bs = [0x80, 0x80] then 3 else 0)
          else 0)"

text \<open>
  \<^verbatim>\<open>SkipSpace\<close> of \<^verbatim>\<open>fmt.Sscanf\<close>: spaces are skipped; a carriage return before a
  newline is dropped; a newline is an error, since \<^verbatim>\<open>Sscanf\<close> does not take it for a
  space.
\<close>

function (sequential) SkipSpace :: "string \<Rightarrow> lib_error + string" where
  "SkipSpace [] = Inr []"
| "SkipSpace (c # cs) =
     (if c = CHR 0x0D \<and> cs \<noteq> [] \<and> hd cs = CHR 0x0A then SkipSpace cs
      else if c = CHR 0x0A then Inl UnexpectedNewline
      else if spaceLen (c # cs) = 0 then Inr (c # cs)
      else SkipSpace (drop (spaceLen (c # cs)) (c # cs)))"
  by pat_completeness auto
termination
  by (relation "measure length") auto

definition isNumberRune :: "char \<Rightarrow> bool" where
  "isNumberRune c = (isDigit c \<or> c = CHR ''_'')"

text \<open>
  One \<^verbatim>\<open>%d\<close> of \<^verbatim>\<open>fmt.Sscanf\<close>: spaces are skipped, then an optional sign and the
  longest run of digits and underscores are read, and the token is handed to
  \<^verbatim>\<open>ParseInt\<close> at 64 bits (which refuses an underscore). The rest of the input is
  returned.
\<close>

definition scanInt :: "string \<Rightarrow> lib_error + (int \<times> string)" where
  "scanInt s =
     (case SkipSpace s of
        Inl e \<Rightarrow> Inl e
      | Inr s1 \<Rightarrow>
          if s1 = [] then Inl EndOfInputAtVerb
          else
            let sign = (if hd s1 = CHR ''+'' \<or> hd s1 = CHR ''-'' then [hd s1] else []);
                s2 = drop (length sign) s1;
                tok = takeWhile isNumberRune s2
            in if s2 = [] then Inl EndOfInputAtVerb
               else if tok = [] then Inl ExpectedInteger
               else (case ParseInt (sign @ tok) 64 of
                       Inl e \<Rightarrow> Inl e
                     | Inr v \<Rightarrow> Inr (v, dropWhile isNumberRune s2)))"

text \<open>
  \<^verbatim>\<open>fmt.Sscanf(s, "%d-%d", &start, &end)\<close>: two integers with a literal \<^verbatim>\<open>-\<close>
  between them; input after the second integer is ignored.
\<close>

definition Sscanf_range :: "string \<Rightarrow> lib_error + (int \<times> int)" where
  "Sscanf_range s =
     (case scanInt s of
        Inl e \<Rightarrow> Inl e
      | Inr (a, r) \<Rightarrow>
          (case r of
             [] \<Rightarrow> Inl EndOfInputAtLiteral
           | c # r' \<Rightarrow>
               if c \<noteq> CHR ''-'' then Inl InputDoesNotMatchFormat
               else (case scanInt r' of
                       Inl e \<Rightarrow> Inl e
                     | Inr (b, _) \<Rightarrow> Inr (a, b))))"

subsection \<open>Building responses\<close>

text \<open>
  \<^verbatim>\<open>errorResponse\<close> of \<^verbatim>\<open>blobs\<close>: an envelope with one error, made of the three
  arguments.
\<close>

definition errorResponse :: "string \<Rightarrow> string \<Rightarrow> (string \<times> string) list \<Rightarrow> RegistryError list" where
  "errorResponse code msg detail = [\<lparr>Code = code, Message = msg, Detail = detail\<rparr>]"

text \<open>
  Modelled from the spec: the method \<^verbatim>\<open>errorResponse\<close> of \<^verbatim>\<open>registry\<close>, which the
  handlers of \<^verbatim>\<open>registry\<close> call, is not among the source files. The specification's
  error envelope is a list \<^verbatim>\<open>errors\<close> of entries with \<^verbatim>\<open>code\<close>, \<^verbatim>\<open>message\<close> and
  \<^verbatim>\<open>detail\<close>; the method builds the envelope with the one entry of its arguments, as
  the method of \<^verbatim>\<open>blobs\<close> does.
\<close>

definition registry_errorResponse :: "string \<Rightarrow> string \<Rightarrow> (string \<times> string) list \<Rightarrow> RegistryError list" where
  "registry_errorResponse code msg detail = [\<lparr>Code = code, Message = msg, Detail = detail\<rparr>]"

definition JSONBlob :: "nat \<Rightarrow> RegistryError list \<Rightarrow> response" where
  "JSONBlob st errMsg = \<lparr>status = st, headers = [], payload = JSONErrors errMsg\<rparr>"

text \<open>\<^verbatim>\<open>ctx.NoContent(st)\<close> after the given response headers were set, in order.\<close>

definition NoContentWith :: "nat \<Rightarrow> (string \<times> string) list \<Rightarrow> response" where
  "NoContentWith st hs = \<lparr>status = st, headers = hs, payload = NoContent\<rparr>"

definition namespace_of :: "request \<Rightarrow> string" where
  "namespace_of ctx = Param ctx ''username'' @ ''/'' @ Param ctx ''imagename''"

text \<open>The buffer of an upload, as Go reads a map: a missing key is the nil slice.\<close>

definition uploads_get :: "registry \<Rightarrow> string \<Rightarrow> bytes" where
  "uploads_get r uuid = (case uploads r uuid of None \<Rightarrow> [] | Some bz \<Rightarrow> bz)"

section \<open>Chunked upload: \<^verbatim>\<open>PATCH /v2/<name>/blobs/uploads/<uuid>\<close>\<close>

text \<open>
  \<^verbatim>\<open>blobTransaction\<close>: writes the fragment row for \<open>bz\<close> in the open transaction of
  \<open>uuid\<close>. When \<^verbatim>\<open>SetBlob\<close> fails the transaction is aborted and the result of
  \<^verbatim>\<open>Abort\<close> is what the function returns.
\<close>

definition blobTransaction :: "env \<Rightarrow> bytes \<Rightarrow> string \<Rightarrow> registry \<Rightarrow> string option \<times> registry" where
  "blobTransaction E bz uuid r =
     (let blob = \<lparr>Blob_Digest = digest E bz, Blob_Skylink = [], Blob_UUID = uuid,
                  Blob_RangeStart = 0,
                  Blob_RangeEnd = word_of_int (int (length bz) - 1)\<rparr>
      in case txnMap r uuid of
           None \<Rightarrow> (Some (''txn has not been initialised for uuid - '' @ uuid), r)
         | Some txnOp \<Rightarrow>
             (case store_SetBlob E (txn txnOp) blob of
                Some err \<Rightarrow>
                  (store_Abort E (txn txnOp),
                   r\<lparr>calls := calls r @ [SetBlob (txn txnOp) blob, Abort (txn txnOp)]\<rparr>)
              | None \<Rightarrow>
                  (None,
                   r\<lparr>calls := calls r @ [SetBlob (txn txnOp) blob],
                     txnMap := (txnMap r)(uuid \<mapsto>
                        txnOp\<lparr>blobDigests := blobDigests txnOp @ [Blob_Digest blob]\<rparr>)\<rparr>)))"

text \<open>
  \<^verbatim>\<open>UploadBlob\<close>. Without a \<^verbatim>\<open>Content-Range\<close> header the body is the first and only
  write of the upload (the error of reading it is dropped). With the header, the start
  must be the length of the buffer; the body is appended to the buffer and the fragment
  row is written for the whole new buffer.
\<close>

definition UploadBlob :: "env \<Rightarrow> request \<Rightarrow> registry \<Rightarrow> response \<times> registry" where
  "UploadBlob E ctx r =
     (let namespace = namespace_of ctx;
          contentRange = Header_Get ctx ''Content-Range'';
          uuid = Param ctx ''uuid''
      in if contentRange = [] then
           (if uploads r uuid \<noteq> None then
              (JSONBlob StatusBadRequest
                 (errorResponse RegistryErrorCodeBlobUploadInvalid
                    ''stream upload after first write are not allowed'' []), r)
            else
              let bz = fst (Body ctx);
                  r1 = r\<lparr>uploads := (uploads r)(uuid \<mapsto> bz)\<rparr>
              in case blobTransaction E bz uuid r1 of
                   (Some err, r2) \<Rightarrow>
                     (JSONBlob StatusBadRequest
                        (errorResponse RegistryErrorCodeBlobUploadInvalid err []), r2)
                 | (None, r2) \<Rightarrow>
                     (NoContentWith StatusAccepted
                        [(''Location'', ''/v2/'' @ namespace @ ''/blobs/uploads/'' @ uuid),
                         (''Range'', ''0-'' @ Itoa (int (length bz) - 1))], r2))
         else
           (case Sscanf_range contentRange of
              Inl err \<Rightarrow>
                (JSONBlob StatusRequestedRangeNotSatisfiable
                   (errorResponse RegistryErrorCodeBlobUploadUnknown (Error E err)
                      [(''error'', ''content range is invalid''),
                       (''contentRange'', contentRange)]), r)
            | Inr (start, end) \<Rightarrow>
                if start \<noteq> int (length (uploads_get r uuid)) then
                  (JSONBlob StatusRequestedRangeNotSatisfiable
                     (errorResponse RegistryErrorCodeBlobUploadUnknown
                        ''content range mismatch'' []), r)
                else
                  (case snd (Body ctx) of
                     Some err \<Rightarrow>
                       (JSONBlob StatusInternalServerError
                          (errorResponse RegistryErrorCodeBlobUploadInvalid
                             ''error while creating new buffer from existing blobs'' []), r)
                   | None \<Rightarrow>
                       let buf = uploads_get r uuid @ fst (Body ctx);
                           r1 = r\<lparr>uploads := (uploads r)(uuid \<mapsto> buf)\<rparr>
                       in case blobTransaction E buf uuid r1 of
                            (Some err, r2) \<Rightarrow>
                              (JSONBlob StatusBadRequest
                                 (errorResponse RegistryErrorCodeBlobUploadInvalid err []), r2)
                          | (None, r2) \<Rightarrow>
                              (NoContentWith StatusAccepted
                                 [(''Location'',
                                   ''/v2/'' @ namespace @ ''/blobs/uploads/'' @ uuid),
                                  (''Range'', ''0-'' @ Itoa (int (length buf) - 1))], r2))))"

section \<open>Finishing an upload: \<^verbatim>\<open>PUT /v2/<name>/blobs/uploads/<uuid>?digest=<digest>\<close>\<close>

text \<open>
  \<^verbatim>\<open>CompleteUpload\<close>. The trailing body is appended to the buffer of the upload, the
  buffer is removed from \<^verbatim>\<open>uploads\<close>, and the digest of the whole is compared with the
  client's. Only then the bytes go to the object store and the layer row is written in the
  transaction of the upload, which is committed and removed from \<^verbatim>\<open>txnMap\<close>.
\<close>

definition CompleteUpload :: "env \<Rightarrow> request \<Rightarrow> registry \<Rightarrow> response \<times> registry" where
  "CompleteUpload E ctx r =
     (let dig = QueryParam ctx ''digest'';
          namespace = namespace_of ctx;
          id = Param ctx ''uuid''
      in case snd (Body ctx) of
           Some err \<Rightarrow>
             (JSONBlob StatusBadRequest (registry_errorResponse RegistryErrorCodeDigestInvalid err []), r)
         | None \<Rightarrow>
             let buf = fst (Body ctx);
                 ubuf = uploads_get r id @ buf;
                 ourHash = digest E ubuf;
                 r1 = r\<lparr>uploads := (uploads r)(id := None)\<rparr>
             in if ourHash \<noteq> dig then
                  (JSONBlob StatusBadRequest
                     (registry_errorResponse RegistryErrorCodeDigestInvalid ''digest mismatch''
                        [(''headerDigest'', dig), (''serverSideDigest'', ourHash),
                         (''bodyDigest'', digest E buf)]), r1)
                else
                  let blobNamespace = namespace @ ''/blobs'';
                      r2 = r1\<lparr>calls := calls r1 @ [Upload blobNamespace dig ubuf]\<rparr>
                  in case skynet_Upload E blobNamespace dig ubuf of
                       Inl err \<Rightarrow>
                         (JSONBlob StatusRequestedRangeNotSatisfiable
                            (registry_errorResponse RegistryErrorCodeBlobUploadInvalid err []), r2)
                     | Inr skylink \<Rightarrow>
                         (case txnMap r2 id of
                            None \<Rightarrow>
                              (JSONBlob StatusBadRequest
                                 (registry_errorResponse RegistryErrorCodeUnknown
                                    (''transaction does not exist for uuid -'' @ id) []), r2)
                          | Some txnOp \<Rightarrow>
                              let layer = \<lparr>LayerV2_MediaType = [], LayerV2_Digest = dig,
                                            LayerV2_SkynetLink = skylink, LayerV2_UUID = id,
                                            LayerV2_BlobDigests = blobDigests txnOp,
                                            LayerV2_Size = int (length buf)\<rparr>;
                                  r3 = r2\<lparr>calls := calls r2 @ [SetLayer (txn txnOp) layer]\<rparr>
                              in case store_SetLayer E (txn txnOp) layer of
                                   Some err \<Rightarrow>
                                     (JSONBlob StatusBadRequest
                                        (registry_errorResponse RegistryErrorCodeUnknown err
                                           [(''error_detail'', ''set layer issues'')]), r3)
                                 | None \<Rightarrow>
                                     let r4 = r3\<lparr>calls := calls r3 @ [Commit (txn txnOp)]\<rparr>
                                     in case store_Commit E (txn txnOp) of
                                          Some err \<Rightarrow>
                                            (JSONBlob StatusBadRequest
                                               (registry_errorResponse RegistryErrorCodeUnknown err
                                                  [(''error_detail'', ''commitment issue'')]), r4)
                                        | None \<Rightarrow>
                                            (NoContentWith StatusCreated
                                               [(''Content-Length'', ''0''),
                                                (''Docker-Content-Digest'', ourHash),
                                                (''Location'',
                                                 ''/v2/'' @ namespace @ ''/blobs/'' @ ourHash)],
                                             r4\<lparr>txnMap := (txnMap r4)(id := None)\<rparr>)))"

section \<open>Starting an upload: \<^verbatim>\<open>POST /v2/<name>/blobs/uploads/\<close>\<close>

text \<open>
  \<^verbatim>\<open>StartUpload\<close>. With a \<^verbatim>\<open>digest\<close> query parameter the body is the whole blob:
  it is verified, uploaded, and its layer row is written and committed in a transaction of
  its own. Without it, a transaction is opened and stored in \<^verbatim>\<open>txnMap\<close> under a new
  uuid.
\<close>

definition StartUpload :: "env \<Rightarrow> request \<Rightarrow> registry \<Rightarrow> response \<times> registry" where
  "StartUpload E ctx r =
     (let namespace = namespace_of ctx;
          clientDigest = QueryParam ctx ''digest''
      in if clientDigest \<noteq> [] then
           (case snd (Body ctx) of
              Some err \<Rightarrow>
                (JSONBlob StatusNotFound
                   (registry_errorResponse RegistryErrorCodeBlobUploadInvalid
                      ''error while reading request body''
                      [(''clientDigest'', clientDigest), (''namespace'', namespace)]), r)
            | None \<Rightarrow>
                let buf = fst (Body ctx);
                    dig = digest E buf
                in if dig \<noteq> clientDigest then
                     (JSONBlob StatusBadRequest
                        (registry_errorResponse RegistryErrorCodeDigestInvalid
                           ''client digest does not meet computed digest''
                           [(''clientDigest'', clientDigest), (''computedDigest'', dig)]), r)
                   else
                     let r1 = r\<lparr>calls := calls r @ [Upload namespace dig buf]\<rparr>
                     in case skynet_Upload E namespace dig buf of
                          Inl err \<Rightarrow>
                            (JSONBlob StatusRequestedRangeNotSatisfiable
                               (registry_errorResponse RegistryErrorCodeBlobUploadInvalid err []), r1)
                        | Inr skylink \<Rightarrow>
                            let layerV2 = \<lparr>LayerV2_MediaType = Header_Get ctx ''content-type'',
                                            LayerV2_Digest = dig,
                                            LayerV2_SkynetLink = skylink,
                                            LayerV2_UUID = uuid_NewString E,
                                            LayerV2_BlobDigests = [],
                                            LayerV2_Size = int (length buf)\<rparr>;
                                r2 = r1\<lparr>calls := calls r1 @ [NewTxn]\<rparr>
                            in case store_NewTxn E of
                                 (_, Some err) \<Rightarrow>
                                   (JSONBlob StatusInternalServerError
                                      (registry_errorResponse RegistryErrorCodeUnknown err []), r2)
                               | (txnOp, None) \<Rightarrow>
                                   let r3 = r2\<lparr>calls := calls r2 @ [SetLayer txnOp layerV2]\<rparr>
                                   in case store_SetLayer E txnOp layerV2 of
                                        Some err \<Rightarrow>
                                          (JSONBlob StatusBadRequest
                                             (registry_errorResponse RegistryErrorCodeBlobUploadInvalid
                                                err []), r3)
                                      | None \<Rightarrow>
                                          let r4 = r3\<lparr>calls := calls r3 @ [Commit txnOp]\<rparr>
                                          in case store_Commit E txnOp of
                                               Some err \<Rightarrow>
                                                 (JSONBlob StatusBadRequest
                                                    (registry_errorResponse
                                                       RegistryErrorCodeBlobUploadInvalid err []),
                                                  r4)
                                             | None \<Rightarrow>
                                                 (NoContentWith StatusCreated
                                                    [(''Location'',
                                                      getHttpUrlFromSkylink E skylink)], r4))
         else
           let id = uuid_New E;
               locationHeader = ''/v2/'' @ namespace @ ''/blobs/uploads/'' @ id;
               r1 = r\<lparr>calls := calls r @ [NewTxn]\<rparr>
           in case store_NewTxn E of
                (_, Some err) \<Rightarrow>
                  (JSONBlob StatusInternalServerError
                     (registry_errorResponse RegistryErrorCodeUnknown err []), r1)
              | (t, None) \<Rightarrow>
                  (NoContentWith StatusAccepted
                     [(''Location'', locationHeader), (''Content-Length'', ''0''),
                      (''Docker-Upload-UUID'', id), (''Range'', ''0-'' @ Itoa 0)],
                   r1\<lparr>txnMap := (txnMap r1)(id \<mapsto>
                        \<lparr>txn = t, blobDigests = [], timeout = 60 * 1000000000 * 30\<rparr>)\<rparr>))"

section \<open>Deleting a layer: \<^verbatim>\<open>DELETE /v2/<name>/blobs/<digest>\<close>\<close>

text \<open>The loop of \<^verbatim>\<open>DeleteLayer\<close> over the fragment digests; it stops at the first error.\<close>

fun deleteBlobs :: "env \<Rightarrow> txn \<Rightarrow> string list \<Rightarrow> call list \<Rightarrow> string option \<times> call list" where
  "deleteBlobs E t [] cs = (None, cs)"
| "deleteBlobs E t (b # bs) cs =
     (case store_DeleteBlobV2 E t b of
        Some err \<Rightarrow> (Some err, cs @ [DeleteBlobV2 t b])
      | None \<Rightarrow> deleteBlobs E t bs (cs @ [DeleteBlobV2 t b]))"

text \<open>
  \<^verbatim>\<open>DeleteLayer\<close>. The errors of \<^verbatim>\<open>NewTxn\<close> and of \<^verbatim>\<open>Commit\<close> are dropped by the
  handler; an error of a delete is sent as a JSON object with status 500.
\<close>

definition DeleteLayer :: "env \<Rightarrow> request \<Rightarrow> registry \<Rightarrow> response \<times> registry" where
  "DeleteLayer E ctx r =
     (let dig = Param ctx ''digest''
      in case store_GetLayer E dig of
           Inl err \<Rightarrow>
             (JSONBlob StatusNotFound (registry_errorResponse RegistryErrorCodeBlobUnknown err []), r)
         | Inr layer \<Rightarrow>
             let blobs = LayerV2_BlobDigests layer;
                 txnOp = fst (store_NewTxn E);
                 cs1 = calls r @ [NewTxn, DeleteLayerV2 txnOp dig]
             in case store_DeleteLayerV2 E txnOp dig of
                  Some err \<Rightarrow>
                    (\<lparr>status = StatusInternalServerError, headers = [],
                      payload = JSONMap [(''error'', err), (''caller'', ''DeleteLayer'')]\<rparr>,
                     r\<lparr>calls := cs1\<rparr>)
                | None \<Rightarrow>
                    (case deleteBlobs E txnOp blobs cs1 of
                       (Some err, cs2) \<Rightarrow>
                         (\<lparr>status = StatusInternalServerError, headers = [],
                           payload = JSONMap [(''error'', err), (''caller'', ''DeleteLayer'')]\<rparr>,
                          r\<lparr>calls := cs2\<rparr>)
                     | (None, cs2) \<Rightarrow>
                         (NoContentWith StatusAccepted [],
                          r\<lparr>calls := cs2 @ [Commit txnOp]\<rparr>)))"

section \<open>Pushing a manifest: \<^verbatim>\<open>PUT /v2/<name>/manifests/<reference>\<close>\<close>

text \<open>
  \<^verbatim>\<open>PushManifest\<close>. The manifest bytes are uploaded first; the rows are then written in
  one new transaction, which is aborted on every failure after it was requested.
\<close>

definition PushManifest :: "env \<Rightarrow> request \<Rightarrow> registry \<Rightarrow> response \<times> registry" where
  "PushManifest E ctx r =
     (let namespace = namespace_of ctx;
          ref = Param ctx ''reference'';
          contentType = Header_Get ctx ''Content-Type''
      in case snd (Body ctx) of
           Some err \<Rightarrow>
             (\<lparr>status = StatusBadRequest, headers = [],
               payload = JSONMap [(''error'', err),
                                  (''message'', ''failed in push manifest while io Copy'')]\<rparr>, r)
         | None \<Rightarrow>
             let buf = fst (Body ctx)
             in case json_Unmarshal E buf of
                  Inl err \<Rightarrow>
                    (JSONBlob StatusBadRequest
                       (registry_errorResponse RegistryErrorCodeBlobUnknown err []), r)
                | Inr manifest \<Rightarrow>
                    let dig = digest E buf;
                        mfNamespace = namespace @ ''/manifests'';
                        r1 = r\<lparr>calls := calls r @ [Upload mfNamespace dig buf]\<rparr>
                    in case skynet_Upload E mfNamespace dig buf of
                         Inl err \<Rightarrow>
                           (JSONBlob StatusNotFound
                              (registry_errorResponse RegistryErrorCodeManifestBlobUnknown err []), r1)
                       | Inr skylink \<Rightarrow>
                           let layerIDs = ImageManifest_Layers manifest;
                               mfc = \<lparr>ConfigV2_UUID = uuid_New E,
                                       ConfigV2_Namespace = namespace,
                                       ConfigV2_Reference = ref,
                                       ConfigV2_Digest = dig,
                                       ConfigV2_Skylink = skylink,
                                       ConfigV2_MediaType = contentType,
                                       ConfigV2_Layers = layerIDs,
                                       ConfigV2_Size = 0\<rparr>;
                               val = \<lparr>ImageManifestV2_Uuid = uuid_NewString E,
                                       ImageManifestV2_Namespace = namespace,
                                       ImageManifestV2_MediaType = [],
                                       ImageManifestV2_SchemaVersion = 2\<rparr>;
                               r2 = r1\<lparr>calls := calls r1 @ [NewTxn]\<rparr>
                           in case store_NewTxn E of
                                (txnOp, Some err) \<Rightarrow>
                                  (JSONBlob StatusInternalServerError
                                     (registry_errorResponse RegistryErrorCodeUnknown err
                                        [(''reason'', ''PG_ERR_CREATE_NEW_TXN'')]),
                                   r2\<lparr>calls := calls r2 @ [Abort txnOp]\<rparr>)
                              | (txnOp, None) \<Rightarrow>
                                  let r3 = r2\<lparr>calls := calls r2 @ [SetManifest txnOp val]\<rparr>
                                  in case store_SetManifest E txnOp val of
                                       Some err \<Rightarrow>
                                         (JSONBlob StatusBadRequest
                                            (registry_errorResponse RegistryErrorCodeUnknown err []),
                                          r3\<lparr>calls := calls r3 @ [Abort txnOp]\<rparr>)
                                     | None \<Rightarrow>
                                         let r4 = r3\<lparr>calls := calls r3 @ [SetConfig txnOp mfc]\<rparr>
                                         in case store_SetConfig E txnOp mfc of
                                              Some err \<Rightarrow>
                                                (JSONBlob StatusBadRequest
                                                   (registry_errorResponse RegistryErrorCodeUnknown err []),
                                                 r4\<lparr>calls := calls r4 @ [Abort txnOp]\<rparr>)
                                            | None \<Rightarrow>
                                                let r5 = r4\<lparr>calls := calls r4 @ [Commit txnOp]\<rparr>
                                                in case store_Commit E txnOp of
                                                     Some err \<Rightarrow>
                                                       (JSONBlob StatusInternalServerError
                                                          (registry_errorResponse RegistryErrorCodeUnknown err
                                                             [(''reason'', ''ERR_PG_COMMIT_TXN'')]),
                                                        r5\<lparr>calls := calls r5 @ [Abort txnOp]\<rparr>)
                                                   | None \<Rightarrow>
                                                       (\<lparr>status = StatusCreated,
                                                         headers =
                                                           [(''Location'',
                                                             getHttpUrlFromSkylink E skylink),
                                                            (''Docker-Content-Digest'', dig),
                                                            (''X-Docker-Content-ID'', skylink)],
                                                         payload = StringBody ''Created''\<rparr>, r5))"

section \<open>Pulling a layer: \<^verbatim>\<open>GET /v2/<name>/blobs/<digest>\<close>\<close>

text \<open>
  \<^verbatim>\<open>PullLayer\<close>. The layer row gives the object link, the object is downloaded and read
  to its end, and the digest of the bytes read is compared with the digest of the path.
  The handler writes nothing, so it returns the response only.
\<close>

definition PullLayer :: "env \<Rightarrow> request \<Rightarrow> response" where
  "PullLayer E ctx =
     (let clientDigest = Param ctx ''digest''
      in case store_GetLayer E clientDigest of
           Inl err \<Rightarrow> JSONBlob StatusNotFound (registry_errorResponse RegistryErrorCodeBlobUnknown err [])
         | Inr layer \<Rightarrow>
             if LayerV2_SkynetLink layer = [] then
               JSONBlob StatusNotFound
                 (registry_errorResponse RegistryErrorCodeBlobUnknown ''skylink is empty''
                    [(''error'', ''skylink is empty'')])
             else
               (case skynet_Download E (LayerV2_SkynetLink layer) of
                  Inl err \<Rightarrow>
                    JSONBlob StatusNotFound
                      (registry_errorResponse RegistryErrorCodeBlobUnknown err
                         [(''error'', err), (''skylink'', LayerV2_SkynetLink layer)])
                | Inr (bz, Some err) \<Rightarrow>
                    JSONBlob StatusInternalServerError
                      (registry_errorResponse RegistryErrorCodeBlobUploadInvalid err [])
                | Inr (bz, None) \<Rightarrow>
                    let dig = digest E bz
                    in if dig \<noteq> clientDigest then
                         JSONBlob StatusNotFound
                           (registry_errorResponse RegistryErrorCodeBlobUploadUnknown
                              ''client digest is different than computed digest''
                              [(''clientDigest'', clientDigest), (''computedDigest'', dig)])
                       else
                         \<lparr>status = StatusOK,
                           headers = [(''Content-Length'', Itoa (int (length bz))),
                                      (''Docker-Content-Digest'', dig)],
                           payload = BlobBody ''application/octet-stream'' bz\<rparr>))"

section \<open>Listing tags: \<^verbatim>\<open>GET /v2/<name>/tags/list\<close>\<close>

text \<open>A handler either returns or panics (a Go run-time error).\<close>

datatype 'a outcome = Panic string | Returns 'a

text \<open>
  The slice expression \<^verbatim>\<open>s[0:n]\<close>: Go checks \<open>n\<close> against the capacity of the slice,
  not its length, and panics beyond it; up to the capacity the result shows elements of
  the backing array. Slicing the nil slice (with \<open>n = 0\<close>) gives the nil slice.
\<close>

definition slice_to :: "slice \<Rightarrow> int \<Rightarrow> slice outcome" where
  "slice_to s n =
     (if n < 0 \<or> int (length (elems s) + length (spare s)) < n
      then Panic ''slice bounds out of range''
      else (case s of
              NilSlice \<Rightarrow> Returns NilSlice
            | Slice es sp \<Rightarrow> Returns (Slice (take (nat n) (es @ sp)) (drop (nat n) (es @ sp)))))"

text \<open>
  \<^verbatim>\<open>ListTags\<close>. The tags of the namespace are read from the store; a limit \<open>n > 0\<close>
  re-slices them to \<open>n\<close>, the limit \<open>0\<close> replaces them by the nil slice, and a negative
  limit leaves them as they are. The slice is sent as \<^verbatim>\<open>encoding/json\<close> writes it, so
  the nil slice is sent as \<^verbatim>\<open>null\<close>.
\<close>

definition ListTags :: "env \<Rightarrow> request \<Rightarrow> response outcome" where
  "ListTags E ctx =
     (let namespace = namespace_of ctx;
          limit = QueryParam ctx ''n''
      in case store_GetImageTags E namespace of
           Inl err \<Rightarrow>
             Returns (JSONBlob StatusNotFound (registry_errorResponse RegistryErrorCodeTagInvalid err []))
         | Inr tags \<Rightarrow>
             if limit \<noteq> [] then
               (case ParseInt limit 32 of
                  Inl err \<Rightarrow>
                    Returns (JSONBlob StatusNotFound
                               (registry_errorResponse RegistryErrorCodeTagInvalid
                                  (Error E err) []))
                | Inr n \<Rightarrow>
                    (case (if n > 0 then slice_to tags n else Returns tags) of
                       Panic msg \<Rightarrow> Panic msg
                     | Returns tags1 \<Rightarrow>
                         let tags2 = (if n = 0 then NilSlice else tags1)
                         in Returns \<lparr>status = StatusOK, headers = [],
                                      payload = JSONTags namespace (json_Marshal tags2)\<rparr>))
             else
               Returns \<lparr>status = StatusOK, headers = [],
                         payload = JSONTags namespace (json_Marshal tags)\<rparr>)"

section \<open>The ACL middleware\<close>

text \<open>
  \<^verbatim>\<open>ACL\<close> wraps the next handler \<open>hf\<close>. The result is \<open>Inr (hf ctx)\<close> when the
  middleware passes the request on, and \<open>Inl\<close> of its own response when it answers
  without calling \<open>hf\<close>. The token is the value the JWT middleware stored under
  \<^verbatim>\<open>"user"\<close> after verifying it; both type assertions fail on anything else.
\<close>

definition ACL :: "(request \<Rightarrow> 'a) \<Rightarrow> request \<Rightarrow> response + 'a" where
  "ACL hf ctx =
     (let m = Method ctx
      in if m = ''GET'' \<or> m = ''HEAD'' then Inr (hf ctx)
         else (case user ctx of
                 Some (JwtToken token) \<Rightarrow>
                   (case token of
                      Claims subject \<Rightarrow>
                        if subject = Param ctx ''username'' then Inr (hf ctx)
                        else Inl (NoContentWith StatusUnauthorized [])
                    | ForeignClaims \<Rightarrow> Inl (NoContentWith StatusUnauthorized []))
               | _ \<Rightarrow> Inl (NoContentWith StatusUnauthorized [])))"

section \<open>Example environments and requests\<close>

text \<open>
  An injective stand-in for the digest function, used only to run the handlers on
  concrete inputs; every general theorem below holds for any digest function.
\<close>

definition example_digest :: "bytes \<Rightarrow> string" where
  "example_digest bz = ''sha256:'' @ bz"

text \<open>
  An environment in which every call on the stores succeeds. Its object store is
  content-addressed: the link of an object is made of its digest alone. The messages of
  library errors are not spelled out.
\<close>

definition E_ok :: env where
  "E_ok = \<lparr>digest = example_digest,
           Error = (\<lambda>e. ''library error''),
           getHttpUrlFromSkylink = (\<lambda>s. ''https://siasky.net/'' @ s),
           uuid_New = ''uuid-1'',
           uuid_NewString = ''uuid-2'',
           json_Unmarshal = (\<lambda>bz. Inr \<lparr>ImageManifest_Layers = [''sha256:l1'', ''sha256:l2'']\<rparr>),
           skynet_Upload = (\<lambda>ns d bz. Inr (''sia://'' @ d)),
           skynet_Download = (\<lambda>link. Inr (drop 13 link, None)),
           store_NewTxn = (Txn 7, None),
           store_SetBlob = (\<lambda>t b. None),
           store_SetLayer = (\<lambda>t l. None),
           store_SetManifest = (\<lambda>t m. None),
           store_SetConfig = (\<lambda>t c. None),
           store_DeleteLayerV2 = (\<lambda>t d. None),
           store_DeleteBlobV2 = (\<lambda>t d. None),
           store_Commit = (\<lambda>t. None),
           store_Abort = (\<lambda>t. None),
           store_GetLayer = (\<lambda>d. Inr \<lparr>LayerV2_MediaType = [], LayerV2_Digest = d,
                                        LayerV2_SkynetLink = ''sia://'' @ d,
                                        LayerV2_UUID = ''uuid-0'',
                                        LayerV2_BlobDigests = [''sha256:f1'', ''sha256:f2''],
                                        LayerV2_Size = 5\<rparr>),
           store_GetImageTags = (\<lambda>ns. Inr (Slice [''v1'', ''v2'', ''latest''] [[]]))\<rparr>"

text \<open>The same, but writing a fragment row fails (the abort that follows succeeds).\<close>

definition E_setblob_fails :: env where
  "E_setblob_fails = E_ok\<lparr>store_SetBlob := (\<lambda>t b. Some ''connection lost'')\<rparr>"

text \<open>The same as \<open>E_ok\<close>, but writing a fragment row and aborting both fail.\<close>

definition E_store_down :: env where
  "E_store_down = E_ok\<lparr>store_SetBlob := (\<lambda>t b. Some ''connection lost''),
                       store_Abort := (\<lambda>t. Some ''connection lost'')\<rparr>"

text \<open>The same as \<open>E_ok\<close>, but deleting a layer row fails.\<close>

definition E_delete_fails :: env where
  "E_delete_fails = E_ok\<lparr>store_DeleteLayerV2 := (\<lambda>t d. Some ''connection lost'')\<rparr>"

text \<open>An upload \<open>U\<close> of user bob with one accepted fragment \<open>hello\<close>.\<close>

definition r_hello :: registry where
  "r_hello = \<lparr>uploads = [''U'' \<mapsto> ''hello''],
              txnMap = [''U'' \<mapsto> \<lparr>txn = Txn 7, blobDigests = [''sha256:hello''],
                                    timeout = 1800000000000\<rparr>],
              calls = []\<rparr>"

text \<open>The upload \<open>U\<close> just opened: a transaction and no buffer yet.\<close>

definition r_open :: registry where
  "r_open = \<lparr>uploads = Map.empty,
             txnMap = [''U'' \<mapsto> \<lparr>txn = Txn 7, blobDigests = [], timeout = 1800000000000\<rparr>],
             calls = []\<rparr>"

definition r_empty :: registry where
  "r_empty = \<lparr>uploads = Map.empty, txnMap = Map.empty, calls = []\<rparr>"

definition bob_params :: "(string \<times> string) list" where
  "bob_params = [(''username'', ''bob''), (''imagename'', ''img''), (''uuid'', ''U'')]"

text \<open>\<^verbatim>\<open>POST /v2/bob/img/blobs/uploads/\<close> without a digest: opens an upload.\<close>

definition post_open :: request where
  "post_open = \<lparr>Method = ''POST'', params = [(''username'', ''bob''), (''imagename'', ''img'')],
                query = [], header = [], Body = ([], None), user = None\<rparr>"

text \<open>\<^verbatim>\<open>PATCH\<close> of the bytes \<open>" world"\<close> at start 5, and the same at start 10.\<close>

definition patch_5 :: request where
  "patch_5 = \<lparr>Method = ''PATCH'', params = bob_params, query = [],
              header = [(''Content-Range'', ''5-10'')], Body = ('' world'', None),
              user = None\<rparr>"

definition patch_10 :: request where
  "patch_10 = \<lparr>Method = ''PATCH'', params = bob_params, query = [],
               header = [(''Content-Range'', ''10-15'')], Body = ('' world'', None),
               user = None\<rparr>"

text \<open>\<^verbatim>\<open>PATCH\<close> at start 5 whose body breaks off with a read error after \<open>" wor"\<close>.\<close>

definition patch_5_broken :: request where
  "patch_5_broken = \<lparr>Method = ''PATCH'', params = bob_params, query = [],
                     header = [(''Content-Range'', ''5-10'')],
                     Body = ('' wor'', Some ''connection reset''), user = None\<rparr>"

text \<open>\<^verbatim>\<open>PATCH\<close> of \<open>"hello"\<close> at start 0.\<close>

definition patch_0 :: request where
  "patch_0 = \<lparr>Method = ''PATCH'', params = bob_params, query = [],
              header = [(''Content-Range'', ''0-4'')], Body = (''hello'', None),
              user = None\<rparr>"

text \<open>\<^verbatim>\<open>PATCH\<close> of \<open>"hello"\<close> without a \<^verbatim>\<open>Content-Range\<close> header.\<close>

definition patch_stream :: request where
  "patch_stream = \<lparr>Method = ''PATCH'', params = bob_params, query = [],
                   header = [], Body = (''hello'', None), user = None\<rparr>"

text \<open>\<^verbatim>\<open>PUT ...?digest=sha256:deadbeef\<close> with an empty body.\<close>

definition put_deadbeef :: request where
  "put_deadbeef = \<lparr>Method = ''PUT'', params = bob_params,
                   query = [(''digest'', ''sha256:deadbeef'')],
                   header = [], Body = ([], None), user = None\<rparr>"



text \<open>\<^verbatim>\<open>GET\<close> or \<^verbatim>\<open>DELETE /v2/alice/app/blobs/<digest>\<close>.\<close>

definition blob_request :: "string \<Rightarrow> string \<Rightarrow> request" where
  "blob_request m d = \<lparr>Method = m,
                       params = [(''username'', ''alice''), (''imagename'', ''app''),
                                 (''digest'', d)],
                       query = [], header = [], Body = ([], None), user = None\<rparr>"

text \<open>\<^verbatim>\<open>GET /v2/alice/app/tags/list?n=<limit>\<close>.\<close>

definition tags_request :: "string \<Rightarrow> request" where
  "tags_request limit = \<lparr>Method = ''GET'',
                         params = [(''username'', ''alice''), (''imagename'', ''app'')],
                         query = [(''n'', limit)], header = [], Body = ([], None),
                         user = None\<rparr>"

text \<open>\<^verbatim>\<open>PUT /v2/dave/app/manifests/latest\<close> with the token of the given subject.\<close>

definition put_manifest :: "string \<Rightarrow> request" where
  "put_manifest subject = \<lparr>Method = ''PUT'',
                           params = [(''username'', ''dave''), (''imagename'', ''app''),
                                     (''reference'', ''latest'')],
                           query = [],
                           header = [(''Content-Type'',
                                      ''application/vnd.docker.distribution.manifest.v2+json'')],
                           Body = (''{}'', None),
                           user = Some (JwtToken (Claims subject))\<rparr>"
section \<open>Properties of the chunked upload\<close>

lemmas status_defs = StatusOK_def StatusCreated_def StatusAccepted_def StatusBadRequest_def
  StatusUnauthorized_def StatusNotFound_def StatusRequestedRangeNotSatisfiable_def
  StatusInternalServerError_def

lemmas request_defs = Param_def QueryParam_def Header_Get_def lookup_def namespace_of_def
  uploads_get_def bob_params_def CanonicalMIMEHeaderKey_def toUpper_def toLower_def

lemmas scan_defs = Sscanf_range_def scanInt_def spaceLen_def ParseInt_def ParseUint_def
  isDigit_def isNumberRune_def digitVal_def

lemma Sscanf_range_5_10: "Sscanf_range ''5-10'' = Inr (5, 10)"
  by (simp add: scan_defs)

lemma Sscanf_range_10_15: "Sscanf_range ''10-15'' = Inr (10, 15)"
  by (simp add: scan_defs)

lemma Sscanf_range_0_4: "Sscanf_range ''0-4'' = Inr (0, 4)"
  by (simp add: scan_defs)

lemma UploadBlob_range_mismatch:
  assumes "Header_Get ctx ''Content-Range'' \<noteq> []"
      and "Sscanf_range (Header_Get ctx ''Content-Range'') = Inr (s, e)"
      and "s \<noteq> int (length (uploads_get r (Param ctx ''uuid'')))"
  shows "UploadBlob E ctx r =
           (JSONBlob StatusRequestedRangeNotSatisfiable
              (errorResponse RegistryErrorCodeBlobUploadUnknown ''content range mismatch'' []), r)"
  using assms by (simp add: UploadBlob_def Let_def)

lemma UploadBlob_range_match:
  assumes "Header_Get ctx ''Content-Range'' \<noteq> []"
      and "Sscanf_range (Header_Get ctx ''Content-Range'') = Inr (s, e)"
      and "s = int (length (uploads_get r (Param ctx ''uuid'')))"
      and "txnMap r (Param ctx ''uuid'') = Some t"
      and "snd (Body ctx) = None"
      and "store_SetBlob E (txn t)
             \<lparr>Blob_Digest = digest E (uploads_get r (Param ctx ''uuid'') @ fst (Body ctx)),
              Blob_Skylink = [], Blob_UUID = Param ctx ''uuid'', Blob_RangeStart = 0,
              Blob_RangeEnd = word_of_int (int (length (uploads_get r (Param ctx ''uuid'') @ fst (Body ctx))) - 1)\<rparr> = None"
  shows "UploadBlob E ctx r =
           (NoContentWith StatusAccepted
              [(''Location'', ''/v2/'' @ namespace_of ctx @ ''/blobs/uploads/'' @ Param ctx ''uuid''),
               (''Range'', ''0-'' @ Itoa (int (length (uploads_get r (Param ctx ''uuid'') @ fst (Body ctx))) - 1))],
            r\<lparr>uploads := (uploads r)(Param ctx ''uuid'' \<mapsto> uploads_get r (Param ctx ''uuid'') @ fst (Body ctx)),
              calls := calls r @ [SetBlob (txn t)
                 \<lparr>Blob_Digest = digest E (uploads_get r (Param ctx ''uuid'') @ fst (Body ctx)),
                  Blob_Skylink = [], Blob_UUID = Param ctx ''uuid'', Blob_RangeStart = 0,
                  Blob_RangeEnd = word_of_int (int (length (uploads_get r (Param ctx ''uuid'') @ fst (Body ctx))) - 1)\<rparr>],
              txnMap := (txnMap r)(Param ctx ''uuid'' \<mapsto>
                 t\<lparr>blobDigests := blobDigests t @ [digest E (uploads_get r (Param ctx ''uuid'') @ fst (Body ctx))]\<rparr>)\<rparr>)"
  using assms by (simp add: UploadBlob_def blobTransaction_def Let_def uploads_get_def)

text \<open>
  C2, as the code has it. A \<^verbatim>\<open>PATCH\<close> that carries a \<^verbatim>\<open>Content-Range\<close> header which
  parses with start \<open>s\<close>, on an upload whose buffer has length \<open>n\<close>: when \<open>s \<noteq> n\<close>
  the answer is 416 and the registry is unchanged, and a 202 is only ever given when
  \<open>s = n\<close>. When the upload has an open transaction, the body is read without error and
  the store takes the fragment row, the request is accepted (202, buffer extended by the
  body, fragment row written, its digest recorded) if and only if \<open>s = n\<close>.
\<close>

theorem UploadBlob_content_range:
  fixes E :: env and ctx :: request and r :: registry and t :: TxnStore
  defines "uuid \<equiv> Param ctx ''uuid''"
      and "buf \<equiv> uploads_get r (Param ctx ''uuid'') @ fst (Body ctx)"
  defines "row \<equiv> \<lparr>Blob_Digest = digest E buf, Blob_Skylink = [], Blob_UUID = uuid,
                   Blob_RangeStart = 0, Blob_RangeEnd = word_of_int (int (length buf) - 1)\<rparr>"
  assumes "Header_Get ctx ''Content-Range'' \<noteq> []"
      and "Sscanf_range (Header_Get ctx ''Content-Range'') = Inr (s, e)"
  shows "(s \<noteq> int (length (uploads_get r uuid)) \<longrightarrow>
            status (fst (UploadBlob E ctx r)) = 416 \<and>
            snd (UploadBlob E ctx r) = r) \<and>
         (status (fst (UploadBlob E ctx r)) = 202 \<longrightarrow>
            s = int (length (uploads_get r uuid))) \<and>
         (txnMap r uuid = Some t \<and> snd (Body ctx) = None \<and> store_SetBlob E (txn t) row = None \<longrightarrow>
            ((status (fst (UploadBlob E ctx r)) = 202 \<and>
              uploads (snd (UploadBlob E ctx r)) uuid = Some buf \<and>
              calls (snd (UploadBlob E ctx r)) = calls r @ [SetBlob (txn t) row] \<and>
              txnMap (snd (UploadBlob E ctx r)) uuid =
                 Some (t\<lparr>blobDigests := blobDigests t @ [Blob_Digest row]\<rparr>))
             \<longleftrightarrow> s = int (length (uploads_get r uuid))))"
proof (intro conjI impI)
  assume ne: "s \<noteq> int (length (uploads_get r uuid))"
  hence ne': "s \<noteq> int (length (uploads_get r (Param ctx ''uuid'')))"
    by (simp add: uuid_def)
  show "status (fst (UploadBlob E ctx r)) = 416"
    by (simp add: UploadBlob_range_mismatch [OF assms(4,5) ne'] JSONBlob_def status_defs)
  show "snd (UploadBlob E ctx r) = r"
    by (simp add: UploadBlob_range_mismatch [OF assms(4,5) ne'])
next
  assume acc: "status (fst (UploadBlob E ctx r)) = 202"
  show "s = int (length (uploads_get r uuid))"
  proof (rule ccontr)
    assume "s \<noteq> int (length (uploads_get r uuid))"
    hence ne': "s \<noteq> int (length (uploads_get r (Param ctx ''uuid'')))"
      by (simp add: uuid_def)
    from acc show False
      by (simp add: UploadBlob_range_mismatch [OF assms(4,5) ne'] JSONBlob_def status_defs)
  qed
next
  assume env: "txnMap r uuid = Some t \<and> snd (Body ctx) = None \<and> store_SetBlob E (txn t) row = None"
  show "(status (fst (UploadBlob E ctx r)) = 202 \<and>
         uploads (snd (UploadBlob E ctx r)) uuid = Some buf \<and>
         calls (snd (UploadBlob E ctx r)) = calls r @ [SetBlob (txn t) row] \<and>
         txnMap (snd (UploadBlob E ctx r)) uuid =
           Some (t\<lparr>blobDigests := blobDigests t @ [Blob_Digest row]\<rparr>))
        \<longleftrightarrow> s = int (length (uploads_get r uuid))"
  proof (cases "s = int (length (uploads_get r (Param ctx ''uuid'')))")
    case True
    from env have e1: "txnMap r (Param ctx ''uuid'') = Some t" and e2: "snd (Body ctx) = None"
      and e3: "store_SetBlob E (txn t)
             \<lparr>Blob_Digest = digest E (uploads_get r (Param ctx ''uuid'') @ fst (Body ctx)),
              Blob_Skylink = [], Blob_UUID = Param ctx ''uuid'', Blob_RangeStart = 0,
              Blob_RangeEnd = word_of_int (int (length (uploads_get r (Param ctx ''uuid'') @ fst (Body ctx))) - 1)\<rparr> = None"
      by (simp_all add: uuid_def buf_def row_def)
    show ?thesis
      using True
      by (simp add: UploadBlob_range_match [OF assms(4,5) True e1 e2 e3] NoContentWith_def
            status_defs uuid_def buf_def row_def)
  next
    case False
    then show ?thesis
      by (simp add: UploadBlob_range_mismatch [OF assms(4,5) False] JSONBlob_def status_defs
            uuid_def)
  qed
qed

theorem UploadBlob_content_range_witness:
  "status (fst (UploadBlob E_ok patch_5 r_hello)) = 202 \<and>
   uploads (snd (UploadBlob E_ok patch_5 r_hello)) ''U'' = Some ''hello world'' \<and>
   status (fst (UploadBlob E_ok patch_10 r_hello)) = 416 \<and>
   snd (UploadBlob E_ok patch_10 r_hello) = r_hello"
proof -
  have h5: "Header_Get patch_5 ''Content-Range'' \<noteq> []"
    by (simp add: patch_5_def request_defs)
  have s5: "Sscanf_range (Header_Get patch_5 ''Content-Range'') = Inr (5, 10)"
    by (simp add: patch_5_def request_defs Sscanf_range_5_10)
  have h10: "Header_Get patch_10 ''Content-Range'' \<noteq> []"
    by (simp add: patch_10_def request_defs)
  have s10: "Sscanf_range (Header_Get patch_10 ''Content-Range'') = Inr (10, 15)"
    by (simp add: patch_10_def request_defs Sscanf_range_10_15)
  have u5: "Param patch_5 ''uuid'' = ''U''" and u10: "Param patch_10 ''uuid'' = ''U''"
    by (simp_all add: patch_5_def patch_10_def request_defs)
  have b5: "Body patch_5 = ('' world'', None)"
    by (simp add: patch_5_def)
  have old: "uploads_get r_hello ''U'' = ''hello''"
    by (simp add: r_hello_def uploads_get_def)
  have tx: "txnMap r_hello ''U'' =
              Some \<lparr>txn = Txn 7, blobDigests = [''sha256:hello''], timeout = 1800000000000\<rparr>"
    by (simp add: r_hello_def)
  have ok: "\<And>t b. store_SetBlob E_ok t b = None"
    by (simp add: E_ok_def)
  from UploadBlob_content_range [OF h5 s5, where r = r_hello and E = E_ok and
         t = "\<lparr>txn = Txn 7, blobDigests = [''sha256:hello''], timeout = 1800000000000\<rparr>"]
  have "status (fst (UploadBlob E_ok patch_5 r_hello)) = 202 \<and>
        uploads (snd (UploadBlob E_ok patch_5 r_hello)) ''U'' = Some ''hello world''"
    by (simp add: u5 b5 old tx ok)
  moreover
  from UploadBlob_content_range [OF h10 s10, where r = r_hello and E = E_ok]
  have "status (fst (UploadBlob E_ok patch_10 r_hello)) = 416 \<and>
        snd (UploadBlob E_ok patch_10 r_hello) = r_hello"
    by (simp add: u10 old)
  ultimately show ?thesis by simp
qed

text \<open>
  The claim as stated fails: with \<open>s = n\<close> the request is not accepted when the body
  cannot be read to its end (500, nothing changed), when the store takes neither the
  fragment row nor the abort (400, no digest recorded), or when the uuid has no open
  transaction (400, no digest recorded).
\<close>

theorem UploadBlob_content_range_counterexample:
  "Sscanf_range (Header_Get patch_5_broken ''Content-Range'') = Inr (5, 10) \<and>
   length (uploads_get r_hello (Param patch_5_broken ''uuid'')) = 5 \<and>
   status (fst (UploadBlob E_ok patch_5_broken r_hello)) = 500 \<and>
   snd (UploadBlob E_ok patch_5_broken r_hello) = r_hello \<and>
   Sscanf_range (Header_Get patch_5 ''Content-Range'') = Inr (5, 10) \<and>
   length (uploads_get r_hello (Param patch_5 ''uuid'')) = 5 \<and>
   status (fst (UploadBlob E_store_down patch_5 r_hello)) = 400 \<and>
   txnMap (snd (UploadBlob E_store_down patch_5 r_hello)) ''U'' = txnMap r_hello ''U'' \<and>
   Sscanf_range (Header_Get patch_0 ''Content-Range'') = Inr (0, 4) \<and>
   length (uploads_get r_empty (Param patch_0 ''uuid'')) = 0 \<and>
   status (fst (UploadBlob E_ok patch_0 r_empty)) = 400 \<and>
   txnMap (snd (UploadBlob E_ok patch_0 r_empty)) ''U'' = None \<and>
   calls (snd (UploadBlob E_ok patch_0 r_empty)) = []"
proof -
  have p5b: "Sscanf_range (Header_Get patch_5_broken ''Content-Range'') = Inr (5, 10)"
    by (simp add: patch_5_broken_def request_defs Sscanf_range_5_10)
  have n5b: "length (uploads_get r_hello (Param patch_5_broken ''uuid'')) = 5"
    by (simp add: patch_5_broken_def r_hello_def request_defs)
  have broken: "status (fst (UploadBlob E_ok patch_5_broken r_hello)) = 500 \<and>
                snd (UploadBlob E_ok patch_5_broken r_hello) = r_hello"
    by (simp add: UploadBlob_def Let_def JSONBlob_def status_defs
          patch_5_broken_def r_hello_def request_defs Sscanf_range_5_10)
  have p5: "Sscanf_range (Header_Get patch_5 ''Content-Range'') = Inr (5, 10)"
    by (simp add: patch_5_def request_defs Sscanf_range_5_10)
  have n5: "length (uploads_get r_hello (Param patch_5 ''uuid'')) = 5"
    by (simp add: patch_5_def r_hello_def request_defs)
  have down: "status (fst (UploadBlob E_store_down patch_5 r_hello)) = 400 \<and>
              txnMap (snd (UploadBlob E_store_down patch_5 r_hello)) ''U'' = txnMap r_hello ''U''"
    by (simp add: UploadBlob_def blobTransaction_def Let_def JSONBlob_def status_defs
          patch_5_def r_hello_def E_store_down_def E_ok_def example_digest_def request_defs
          Sscanf_range_5_10)
  have p0: "Sscanf_range (Header_Get patch_0 ''Content-Range'') = Inr (0, 4)"
    by (simp add: patch_0_def request_defs Sscanf_range_0_4)
  have n0: "length (uploads_get r_empty (Param patch_0 ''uuid'')) = 0"
    by (simp add: patch_0_def r_empty_def request_defs)
  have closed: "status (fst (UploadBlob E_ok patch_0 r_empty)) = 400 \<and>
                txnMap (snd (UploadBlob E_ok patch_0 r_empty)) ''U'' = None \<and>
                calls (snd (UploadBlob E_ok patch_0 r_empty)) = []"
    by (simp add: UploadBlob_def blobTransaction_def Let_def JSONBlob_def status_defs
          patch_0_def r_empty_def E_ok_def request_defs Sscanf_range_0_4)
  from p5b n5b broken p5 n5 down p0 n0 closed show ?thesis
    by blast
qed

lemma uint32_of_int:
  fixes k :: int
  assumes "0 \<le> k" and "k < 4294967296"
  shows "uint (word_of_int k :: 32 word) = k"
proof -
  have "uint (word_of_int k :: 32 word) = take_bit 32 k"
    by (simp add: uint_word_of_int_eq)
  also from assms have "take_bit 32 k = k"
    by (intro take_bit_int_eq_self) simp_all
  finally show ?thesis .
qed

text \<open>
  C3, as the code has it. For an accepted \<^verbatim>\<open>PATCH\<close> whose fragment row the store takes,
  the row's digest is the digest of the whole buffer after the append (the bytes
  accumulated before, followed by the chunk), which is the digest of the chunk when the
  buffer was empty before. The row's range starts at \<open>0\<close> and ends at the length of
  that buffer minus one as an unsigned 32-bit number, which is \<open>4294967295\<close> for an
  empty buffer. The digest is appended to the digests of the upload's transaction.
\<close>

theorem UploadBlob_fragment_digest:
  fixes E :: env and ctx :: request and r :: registry and t :: TxnStore
  defines "uuid \<equiv> Param ctx ''uuid''"
      and "buf \<equiv> uploads_get r (Param ctx ''uuid'') @ fst (Body ctx)"
  defines "row \<equiv> \<lparr>Blob_Digest = digest E buf, Blob_Skylink = [], Blob_UUID = uuid,
                   Blob_RangeStart = 0, Blob_RangeEnd = word_of_int (int (length buf) - 1)\<rparr>"
  assumes "status (fst (UploadBlob E ctx r)) = 202"
      and "txnMap r uuid = Some t"
      and "store_SetBlob E (txn t) row = None"
  shows "uploads (snd (UploadBlob E ctx r)) uuid = Some buf \<and>
         calls (snd (UploadBlob E ctx r)) = calls r @ [SetBlob (txn t) row] \<and>
         txnMap (snd (UploadBlob E ctx r)) uuid =
           Some (t\<lparr>blobDigests := blobDigests t @ [digest E buf]\<rparr>) \<and>
         (uploads_get r uuid = [] \<longrightarrow> Blob_Digest row = digest E (fst (Body ctx))) \<and>
         (buf = [] \<longrightarrow> Blob_RangeEnd row = 4294967295) \<and>
         (buf \<noteq> [] \<and> int (length buf) \<le> 4294967296 \<longrightarrow>
            uint (Blob_RangeEnd row) = int (length buf) - 1)"
proof -
  have main: "uploads (snd (UploadBlob E ctx r)) uuid = Some buf \<and>
         calls (snd (UploadBlob E ctx r)) = calls r @ [SetBlob (txn t) row] \<and>
         txnMap (snd (UploadBlob E ctx r)) uuid =
           Some (t\<lparr>blobDigests := blobDigests t @ [digest E buf]\<rparr>)"
    using assms
    by (auto simp add: UploadBlob_def blobTransaction_def Let_def uploads_get_def JSONBlob_def
          NoContentWith_def status_defs split: if_splits sum.splits option.splits prod.splits)
  have d: "uploads_get r uuid = [] \<longrightarrow> Blob_Digest row = digest E (fst (Body ctx))"
    by (simp add: row_def buf_def uuid_def)
  have e: "buf = [] \<longrightarrow> Blob_RangeEnd row = 4294967295"
    by (simp add: row_def)
  have re: "Blob_RangeEnd row = word_of_int (int (length buf) - 1)"
    by (simp add: row_def)
  have n: "buf \<noteq> [] \<and> int (length buf) \<le> 4294967296 \<longrightarrow>
             uint (Blob_RangeEnd row) = int (length buf) - 1"
  proof
    assume a: "buf \<noteq> [] \<and> int (length buf) \<le> 4294967296"
    then have "0 < length buf" by simp
    then have lo: "0 \<le> int (length buf) - 1" by linarith
    from a have hi: "int (length buf) - 1 < 4294967296" by linarith
    show "uint (Blob_RangeEnd row) = int (length buf) - 1"
      unfolding re by (rule uint32_of_int [OF lo hi])
  qed
  from main d e n show ?thesis by blast
qed

theorem UploadBlob_fragment_digest_witness:
  "calls (snd (UploadBlob E_ok patch_5 r_hello)) =
     [SetBlob (Txn 7) \<lparr>Blob_Digest = ''sha256:hello world'', Blob_Skylink = [],
                        Blob_UUID = ''U'', Blob_RangeStart = 0, Blob_RangeEnd = 10\<rparr>] \<and>
   txnMap (snd (UploadBlob E_ok patch_5 r_hello)) ''U'' =
     Some \<lparr>txn = Txn 7, blobDigests = [''sha256:hello'', ''sha256:hello world''],
           timeout = 1800000000000\<rparr> \<and>
   calls (snd (UploadBlob E_ok patch_stream r_open)) =
     [SetBlob (Txn 7) \<lparr>Blob_Digest = digest E_ok ''hello'', Blob_Skylink = [],
                        Blob_UUID = ''U'', Blob_RangeStart = 0, Blob_RangeEnd = 4\<rparr>]"
proof -
  have acc: "status (fst (UploadBlob E_ok patch_5 r_hello)) = 202"
    by (simp add: UploadBlob_def blobTransaction_def Let_def patch_5_def r_hello_def E_ok_def
          request_defs Sscanf_range_5_10 NoContentWith_def status_defs)
  have tx: "txnMap r_hello (Param patch_5 ''uuid'') =
              Some \<lparr>txn = Txn 7, blobDigests = [''sha256:hello''], timeout = 1800000000000\<rparr>"
    by (simp add: r_hello_def patch_5_def request_defs)
  have acc': "status (fst (UploadBlob E_ok patch_stream r_open)) = 202"
    by (simp add: UploadBlob_def blobTransaction_def Let_def patch_stream_def r_open_def
          E_ok_def request_defs NoContentWith_def status_defs)
  have tx': "txnMap r_open (Param patch_stream ''uuid'') =
              Some \<lparr>txn = Txn 7, blobDigests = [], timeout = 1800000000000\<rparr>"
    by (simp add: r_open_def patch_stream_def request_defs)
  have ok: "\<And>t b. store_SetBlob E_ok t b = None"
    by (simp add: E_ok_def)
  from UploadBlob_fragment_digest [OF acc tx ok]
  have "calls (snd (UploadBlob E_ok patch_5 r_hello)) =
     [SetBlob (Txn 7) \<lparr>Blob_Digest = ''sha256:hello world'', Blob_Skylink = [],
                        Blob_UUID = ''U'', Blob_RangeStart = 0, Blob_RangeEnd = 10\<rparr>] \<and>
   txnMap (snd (UploadBlob E_ok patch_5 r_hello)) ''U'' =
     Some \<lparr>txn = Txn 7, blobDigests = [''sha256:hello'', ''sha256:hello world''],
           timeout = 1800000000000\<rparr>"
    by (simp add: patch_5_def r_hello_def request_defs E_ok_def example_digest_def)
  moreover
  from UploadBlob_fragment_digest [OF acc' tx' ok]
  have "calls (snd (UploadBlob E_ok patch_stream r_open)) =
     [SetBlob (Txn 7) \<lparr>Blob_Digest = digest E_ok ''hello'', Blob_Skylink = [],
                        Blob_UUID = ''U'', Blob_RangeStart = 0, Blob_RangeEnd = 4\<rparr>]"
    by (simp add: patch_stream_def r_open_def request_defs)
  ultimately show ?thesis by simp
qed

text \<open>
  The claim as stated fails: after \<open>hello\<close>, the chunk \<open>" world"\<close> is accepted and the
  row written carries the digest of \<open>hello world\<close>, not of the chunk.
\<close>

theorem UploadBlob_fragment_digest_counterexample:
  "status (fst (UploadBlob E_ok patch_5 r_hello)) = 202 \<and>
   fst (Body patch_5) = '' world'' \<and>
   calls (snd (UploadBlob E_ok patch_5 r_hello)) =
     [SetBlob (Txn 7) \<lparr>Blob_Digest = digest E_ok ''hello world'', Blob_Skylink = [],
                        Blob_UUID = ''U'', Blob_RangeStart = 0, Blob_RangeEnd = 10\<rparr>] \<and>
   digest E_ok ''hello world'' \<noteq> digest E_ok '' world''"
  by (simp add: UploadBlob_def blobTransaction_def Let_def patch_5_def r_hello_def E_ok_def
        request_defs Sscanf_range_5_10 NoContentWith_def example_digest_def status_defs)
section \<open>Properties of finishing an upload\<close>

text \<open>
  Whenever the digests differ, \<^verbatim>\<open>CompleteUpload\<close> answers 400 \<open>DIGEST_INVALID\<close>,
  makes no call on either store, and changes the registry only by removing the buffer:
  \<^verbatim>\<open>txnMap\<close> keeps the transaction of the upload.
\<close>

lemma CompleteUpload_digest_mismatch:
  assumes "snd (Body ctx) = None"
      and "digest E (uploads_get r (Param ctx ''uuid'') @ fst (Body ctx)) \<noteq> QueryParam ctx ''digest''"
  shows "CompleteUpload E ctx r =
           (JSONBlob StatusBadRequest
              (registry_errorResponse RegistryErrorCodeDigestInvalid ''digest mismatch''
                 [(''headerDigest'', QueryParam ctx ''digest''),
                  (''serverSideDigest'',
                   digest E (uploads_get r (Param ctx ''uuid'') @ fst (Body ctx))),
                  (''bodyDigest'', digest E (fst (Body ctx)))]),
            r\<lparr>uploads := (uploads r)(Param ctx ''uuid'' := None)\<rparr>)"
  using assms by (simp add: CompleteUpload_def Let_def)

text \<open>
  The registry \<open>r_hello\<close> of the examples is what opening the upload \<open>U\<close> and sending
  \<open>hello\<close> in one \<^verbatim>\<open>PATCH\<close> leave behind.
\<close>

lemma r_hello_reached:
  "snd (UploadBlob E_ok patch_stream
          (snd (StartUpload (E_ok\<lparr>uuid_New := ''U''\<rparr>) post_open r_empty))) =
   r_hello\<lparr>calls := [NewTxn,
                       SetBlob (Txn 7) \<lparr>Blob_Digest = ''sha256:hello'', Blob_Skylink = [],
                                          Blob_UUID = ''U'', Blob_RangeStart = 0,
                                          Blob_RangeEnd = 4\<rparr>]\<rparr>"
  by (simp add: UploadBlob_def StartUpload_def blobTransaction_def Let_def E_ok_def
        example_digest_def patch_stream_def post_open_def r_empty_def r_hello_def request_defs)

text \<open>
  C1. The claim: a finalize whose digest differs from the digest of the accumulated buffer
  is answered 400 \<open>DIGEST_INVALID\<close>, no layer row is committed, and the transaction of
  the upload is aborted, so that a later \<^verbatim>\<open>PATCH\<close> on the uuid finds no session. The
  code at such a request: the answer is 400 \<open>DIGEST_INVALID\<close> and no row is written,
  but \<^verbatim>\<open>Abort\<close> is not called, the transaction stays in \<^verbatim>\<open>txnMap\<close>, and the next
  \<^verbatim>\<open>PATCH\<close> on the same uuid is accepted with 202 and writes a fragment row in that
  transaction.
\<close>

theorem CompleteUpload_mismatch_keeps_transaction:
  "status (fst (CompleteUpload E_ok put_deadbeef r_hello)) = StatusBadRequest \<and>
   payload (fst (CompleteUpload E_ok put_deadbeef r_hello)) =
     JSONErrors [\<lparr>Code = ''DIGEST_INVALID'', Message = ''digest mismatch'',
                  Detail = [(''headerDigest'', ''sha256:deadbeef''),
                            (''serverSideDigest'', ''sha256:hello''),
                            (''bodyDigest'', ''sha256:'')]\<rparr>] \<and>
   calls (snd (CompleteUpload E_ok put_deadbeef r_hello)) = [] \<and>
   uploads (snd (CompleteUpload E_ok put_deadbeef r_hello)) ''U'' = None \<and>
   txnMap (snd (CompleteUpload E_ok put_deadbeef r_hello)) ''U'' =
     Some \<lparr>txn = Txn 7, blobDigests = [''sha256:hello''], timeout = 1800000000000\<rparr> \<and>
   status (fst (UploadBlob E_ok patch_stream (snd (CompleteUpload E_ok put_deadbeef r_hello))))
     = StatusAccepted \<and>
   calls (snd (UploadBlob E_ok patch_stream (snd (CompleteUpload E_ok put_deadbeef r_hello))))
     = [SetBlob (Txn 7) \<lparr>Blob_Digest = ''sha256:hello'', Blob_Skylink = [], Blob_UUID = ''U'',
                          Blob_RangeStart = 0, Blob_RangeEnd = 4\<rparr>]"
  by (simp add: CompleteUpload_def UploadBlob_def blobTransaction_def
        Let_def JSONBlob_def NoContentWith_def registry_errorResponse_def status_defs
        RegistryErrorCodeDigestInvalid_def put_deadbeef_def patch_stream_def r_hello_def
        E_ok_def example_digest_def request_defs)
section \<open>Errors of the metadata store\<close>

text \<open>
  When \<^verbatim>\<open>SetBlob\<close> fails, \<^verbatim>\<open>blobTransaction\<close> aborts the transaction and returns
  what \<^verbatim>\<open>Abort\<close> returned: no error when the abort went through.
\<close>

lemma blobTransaction_SetBlob_error:
  assumes "txnMap r uuid = Some txnOp"
      and "store_SetBlob E (txn txnOp)
             \<lparr>Blob_Digest = digest E bz, Blob_Skylink = [], Blob_UUID = uuid,
              Blob_RangeStart = 0, Blob_RangeEnd = word_of_int (int (length bz) - 1)\<rparr>
           = Some err"
  shows "fst (blobTransaction E bz uuid r) = store_Abort E (txn txnOp)"
  using assms by (simp add: blobTransaction_def Let_def)

text \<open>
  When \<^verbatim>\<open>DeleteLayerV2\<close> fails, \<^verbatim>\<open>DeleteLayer\<close> answers 500 and has called
  \<^verbatim>\<open>NewTxn\<close> and \<^verbatim>\<open>DeleteLayerV2\<close> only.
\<close>

lemma DeleteLayer_DeleteLayerV2_error:
  assumes "store_GetLayer E (Param ctx ''digest'') = Inr layer"
      and "store_DeleteLayerV2 E (fst (store_NewTxn E)) (Param ctx ''digest'') = Some err"
  shows "DeleteLayer E ctx r =
           (\<lparr>status = StatusInternalServerError, headers = [],
             payload = JSONMap [(''error'', err), (''caller'', ''DeleteLayer'')]\<rparr>,
            r\<lparr>calls := calls r @
                 [NewTxn, DeleteLayerV2 (fst (store_NewTxn E)) (Param ctx ''digest'')]\<rparr>)"
  using assms by (simp add: DeleteLayer_def Let_def)

text \<open>
  C4. The claim: when a write on the metadata store fails after a transaction was opened,
  the handler surfaces the error (no success status) and aborts the transaction before it
  answers. The code at two such requests: a \<^verbatim>\<open>PATCH\<close> whose \<^verbatim>\<open>SetBlob\<close> fails is
  aborted but answered 202, and a \<^verbatim>\<open>DELETE\<close> of a layer whose \<^verbatim>\<open>DeleteLayerV2\<close>
  fails is answered 500 without a call of \<^verbatim>\<open>Abort\<close>.
\<close>

theorem store_error_swallowed_or_not_aborted:
  "store_SetBlob E_setblob_fails (Txn 7)
     \<lparr>Blob_Digest = ''sha256:hello'', Blob_Skylink = [], Blob_UUID = ''U'',
      Blob_RangeStart = 0, Blob_RangeEnd = 4\<rparr> = Some ''connection lost'' \<and>
   fst (UploadBlob E_setblob_fails patch_stream r_open) =
     NoContentWith StatusAccepted
       [(''Location'', ''/v2/bob/img/blobs/uploads/U''), (''Range'', ''0-4'')] \<and>
   calls (snd (UploadBlob E_setblob_fails patch_stream r_open)) =
     [SetBlob (Txn 7) \<lparr>Blob_Digest = ''sha256:hello'', Blob_Skylink = [], Blob_UUID = ''U'',
                        Blob_RangeStart = 0, Blob_RangeEnd = 4\<rparr>,
      Abort (Txn 7)] \<and>
   store_DeleteLayerV2 E_delete_fails (Txn 7) ''sha256:hello'' = Some ''connection lost'' \<and>
   status (fst (DeleteLayer E_delete_fails (blob_request ''DELETE'' ''sha256:hello'') r_empty))
     = StatusInternalServerError \<and>
   calls (snd (DeleteLayer E_delete_fails (blob_request ''DELETE'' ''sha256:hello'') r_empty))
     = [NewTxn, DeleteLayerV2 (Txn 7) ''sha256:hello'']"
  by (simp add: UploadBlob_def blobTransaction_def DeleteLayer_def Let_def NoContentWith_def
        E_setblob_fails_def E_delete_fails_def E_ok_def example_digest_def patch_stream_def
        blob_request_def r_open_def r_empty_def request_defs Itoa_def digits.simps)
section \<open>Properties of the monolithic upload\<close>



text \<open>
  Whatever \<^verbatim>\<open>getHttpUrlFromSkylink\<close> computes, the \<^verbatim>\<open>Location\<close> of a monolithic
  upload depends on the link of the object alone and not on the name of the repository.
\<close>

lemma StartUpload_location_of_link:
  assumes "QueryParam ctx ''digest'' \<noteq> []"
      and "status (fst (StartUpload E ctx r)) = 201"
  shows "\<exists>skylink.
           skynet_Upload E (namespace_of ctx) (QueryParam ctx ''digest'') (fst (Body ctx))
             = Inr skylink \<and>
           headers (fst (StartUpload E ctx r)) =
             [(''Location'', getHttpUrlFromSkylink E skylink)]"
proof (cases "snd (Body ctx)")
  case (Some err)
  with assms show ?thesis
    by (simp add: StartUpload_def Let_def JSONBlob_def status_defs)
next
  case None
  note b = None
  show ?thesis
  proof (cases "digest E (fst (Body ctx)) = QueryParam ctx ''digest''")
    case False
    with assms b show ?thesis
      by (simp add: StartUpload_def Let_def JSONBlob_def status_defs)
  next
    case True
    note m = True
    show ?thesis
    proof (cases "skynet_Upload E (namespace_of ctx) (QueryParam ctx ''digest'') (fst (Body ctx))")
      case (Inl err)
      with assms b m show ?thesis
        by (simp add: StartUpload_def Let_def JSONBlob_def status_defs)
    next
      case (Inr skylink)
      with assms b m show ?thesis
        by (simp add: StartUpload_def Let_def JSONBlob_def NoContentWith_def status_defs
              split: prod.splits option.splits)
    qed
  qed
qed

section \<open>Properties of the ACL middleware\<close>

text \<open>
  C6. For \<^verbatim>\<open>GET\<close> and \<^verbatim>\<open>HEAD\<close> the next handler runs whatever the token. For any
  other method the next handler runs if and only if the context holds a verified token
  whose claims carry a subject equal to the \<^verbatim>\<open>username\<close> path parameter; otherwise
  the middleware answers 401 itself and the handler is not called.
\<close>

theorem ACL_decision:
  "((Method ctx = ''GET'' \<or> Method ctx = ''HEAD'') \<longrightarrow> ACL hf ctx = Inr (hf ctx)) \<and>
   (Method ctx \<noteq> ''GET'' \<and> Method ctx \<noteq> ''HEAD'' \<longrightarrow>
      ((ACL hf ctx = Inr (hf ctx)) \<longleftrightarrow>
         (\<exists>subject. user ctx = Some (JwtToken (Claims subject)) \<and>
                    subject = Param ctx ''username'')) \<and>
      ((\<nexists>subject. user ctx = Some (JwtToken (Claims subject)) \<and>
                    subject = Param ctx ''username'') \<longrightarrow>
         ACL hf ctx = Inl (NoContentWith StatusUnauthorized [])))"
  by (auto simp add: ACL_def Let_def split: option.splits ctx_value.splits claims.splits)

theorem ACL_decision_witness:
  "ACL (\<lambda>c. status (fst (PushManifest E_ok c r_empty))) (put_manifest ''carol'') =
     Inl (NoContentWith StatusUnauthorized []) \<and>
   ACL (\<lambda>c. status (fst (PushManifest E_ok c r_empty))) (put_manifest ''dave'') =
     Inr (status (fst (PushManifest E_ok (put_manifest ''dave'') r_empty))) \<and>
   ACL (\<lambda>c. status (PullLayer E_ok c)) (blob_request ''GET'' ''sha256:hello'') =
     Inr (status (PullLayer E_ok (blob_request ''GET'' ''sha256:hello'')))"
proof -
  let ?hf = "\<lambda>c. status (fst (PushManifest E_ok c r_empty))"
  have m: "\<And>s. Method (put_manifest s) \<noteq> ''GET'' \<and> Method (put_manifest s) \<noteq> ''HEAD''"
    by (simp add: put_manifest_def)
  have g: "Method (blob_request ''GET'' ''sha256:hello'') = ''GET''"
    by (simp add: blob_request_def)
  have u: "\<And>s. user (put_manifest s) = Some (JwtToken (Claims s))"
    by (simp add: put_manifest_def)
  have p: "\<And>s. Param (put_manifest s) ''username'' = ''dave''"
    by (simp add: put_manifest_def request_defs)
  from ACL_decision [of "put_manifest ''carol''" ?hf] m u p
  have "ACL ?hf (put_manifest ''carol'') = Inl (NoContentWith StatusUnauthorized [])"
    by simp
  moreover
  from ACL_decision [of "put_manifest ''dave''" ?hf] m u p
  have "ACL ?hf (put_manifest ''dave'') = Inr (?hf (put_manifest ''dave''))"
    by simp
  moreover
  from ACL_decision [of "blob_request ''GET'' ''sha256:hello''" "\<lambda>c. status (PullLayer E_ok c)"] g
  have "ACL (\<lambda>c. status (PullLayer E_ok c)) (blob_request ''GET'' ''sha256:hello'') =
          Inr (status (PullLayer E_ok (blob_request ''GET'' ''sha256:hello'')))"
    by simp
  ultimately show ?thesis by simp
qed
section \<open>Properties of the tag listing\<close>

lemma ParseInt_nonempty: "ParseInt s b = Inr n \<Longrightarrow> s \<noteq> []"
  by (auto simp add: ParseInt_def Let_def split: if_splits)

lemma ListTags_reslice:
  assumes "store_GetImageTags E (namespace_of ctx) = Inr tags"
      and "ParseInt (QueryParam ctx ''n'') 32 = Inr n"
      and "0 < n"
  shows "ListTags E ctx =
           (if int (length (elems tags) + length (spare tags)) < n
            then Panic ''slice bounds out of range''
            else Returns \<lparr>status = StatusOK, headers = [],
                           payload = JSONTags (namespace_of ctx)
                                       (JArray (take (nat n) (elems tags @ spare tags)))\<rparr>)"
proof (cases tags)
  case NilSlice
  with assms ParseInt_nonempty [OF assms(2)] show ?thesis
    by (simp add: ListTags_def slice_to_def Let_def)
next
  case (Slice es sp)
  with assms ParseInt_nonempty [OF assms(2)] show ?thesis
    by (simp add: ListTags_def slice_to_def json_Marshal_def Let_def)
qed

lemma ListTags_zero:
  assumes "store_GetImageTags E (namespace_of ctx) = Inr tags"
      and "ParseInt (QueryParam ctx ''n'') 32 = Inr 0"
  shows "ListTags E ctx =
           Returns \<lparr>status = StatusOK, headers = [],
                    payload = JSONTags (namespace_of ctx) JNull\<rparr>"
  using assms ParseInt_nonempty [OF assms(2)]
  by (simp add: ListTags_def json_Marshal_def Let_def)

text \<open>
  C7, as the code has it. With a limit that parses to \<open>n\<close> and \<open>0 < n \<le>\<close> the number of
  stored tags, the answer is 200 with the name and exactly the first \<open>n\<close> stored tags,
  in order, as a JSON array. With the limit \<open>0\<close> the answer is 200 with the name and
  the tags \<^verbatim>\<open>null\<close>: the handler replaces the list by the nil slice, which is not
  written as \<^verbatim>\<open>[]\<close>.
\<close>

theorem ListTags_limit_within_length:
  assumes "store_GetImageTags E (namespace_of ctx) = Inr tags"
      and "ParseInt (QueryParam ctx ''n'') 32 = Inr n"
      and "0 \<le> n" and "n \<le> int (length (elems tags))"
  shows "(0 < n \<longrightarrow>
            ListTags E ctx =
              Returns \<lparr>status = 200, headers = [],
                       payload = JSONTags (namespace_of ctx)
                                   (JArray (take (nat n) (elems tags)))\<rparr>) \<and>
         (n = 0 \<longrightarrow>
            ListTags E ctx =
              Returns \<lparr>status = 200, headers = [],
                       payload = JSONTags (namespace_of ctx) JNull\<rparr>)"
proof (intro conjI impI)
  assume pos: "0 < n"
  from assms(4) have "\<not> int (length (elems tags) + length (spare tags)) < n"
    by simp
  moreover from assms(4) have "take (nat n) (elems tags @ spare tags) = take (nat n) (elems tags)"
    by simp
  ultimately show "ListTags E ctx =
              Returns \<lparr>status = 200, headers = [],
                       payload = JSONTags (namespace_of ctx)
                                   (JArray (take (nat n) (elems tags)))\<rparr>"
    using ListTags_reslice [OF assms(1,2) pos] by (simp add: status_defs)
next
  assume "n = 0"
  with assms(2) have "ParseInt (QueryParam ctx ''n'') 32 = Inr 0" by simp
  from ListTags_zero [OF assms(1) this]
  show "ListTags E ctx =
              Returns \<lparr>status = 200, headers = [],
                       payload = JSONTags (namespace_of ctx) JNull\<rparr>"
    by (simp add: status_defs)
qed

theorem ListTags_limit_within_length_witness:
  "ListTags E_ok (tags_request ''2'') =
     Returns \<lparr>status = 200, headers = [],
              payload = JSONTags ''alice/app'' (JArray [''v1'', ''v2''])\<rparr> \<and>
   ListTags E_ok (tags_request ''0'') =
     Returns \<lparr>status = 200, headers = [], payload = JSONTags ''alice/app'' JNull\<rparr>"
proof -
  have t: "\<And>l. store_GetImageTags E_ok (namespace_of (tags_request l)) =
             Inr (Slice [''v1'', ''v2'', ''latest''] [[]])"
    by (simp add: E_ok_def)
  have p2: "ParseInt (QueryParam (tags_request ''2'') ''n'') 32 = Inr 2"
   and p0: "ParseInt (QueryParam (tags_request ''0'') ''n'') 32 = Inr 0"
    by (simp_all add: tags_request_def request_defs scan_defs)
  have ns: "\<And>l. namespace_of (tags_request l) = ''alice/app''"
    by (simp add: tags_request_def request_defs)
  have c2: "(0::int) \<le> 2"
   and d2: "2 \<le> int (length (elems (Slice [''v1'', ''v2'', ''latest''] [[]])))"
   and c0: "(0::int) \<le> 0"
   and d0: "0 \<le> int (length (elems (Slice [''v1'', ''v2'', ''latest''] [[]])))"
    by simp_all
  have "ListTags E_ok (tags_request ''2'') =
     Returns \<lparr>status = 200, headers = [],
              payload = JSONTags ''alice/app'' (JArray [''v1'', ''v2''])\<rparr>"
    using ListTags_limit_within_length [OF t p2 c2 d2] by (simp add: ns)
  moreover
  have "ListTags E_ok (tags_request ''0'') =
     Returns \<lparr>status = 200, headers = [], payload = JSONTags ''alice/app'' JNull\<rparr>"
    using ListTags_limit_within_length [OF t p0 c0 d0] by (simp add: ns)
  ultimately show ?thesis by simp
qed

text \<open>
  The claim as stated fails at the limit \<open>0\<close>: the tags of the answer are \<^verbatim>\<open>null\<close>,
  not the empty array.
\<close>

theorem ListTags_limit_zero_counterexample:
  "ParseInt (QueryParam (tags_request ''0'') ''n'') 32 = Inr 0 \<and>
   ListTags E_ok (tags_request ''0'') =
     Returns \<lparr>status = 200, headers = [], payload = JSONTags ''alice/app'' JNull\<rparr> \<and>
   ListTags E_ok (tags_request ''0'') \<noteq>
     Returns \<lparr>status = 200, headers = [], payload = JSONTags ''alice/app'' (JArray [])\<rparr>"
proof -
  have p0: "ParseInt (QueryParam (tags_request ''0'') ''n'') 32 = Inr 0"
    by (simp add: tags_request_def request_defs scan_defs)
  have t: "store_GetImageTags E_ok (namespace_of (tags_request ''0'')) =
             Inr (Slice [''v1'', ''v2'', ''latest''] [[]])"
    by (simp add: E_ok_def)
  have ns: "namespace_of (tags_request ''0'') = ''alice/app''"
    by (simp add: tags_request_def request_defs)
  from ListTags_zero [OF t p0] have
    z: "ListTags E_ok (tags_request ''0'') =
          Returns \<lparr>status = 200, headers = [], payload = JSONTags ''alice/app'' JNull\<rparr>"
    by (simp add: ns status_defs)
  from p0 z show ?thesis by simp
qed

text \<open>
  C10. With a limit that parses to \<open>n\<close> greater than the number of stored tags, the
  handler evaluates \<^verbatim>\<open>tags[0:n]\<close> beyond the length of the slice: beyond its capacity
  this is a run-time panic, and within the capacity the answer lists the stored tags
  followed by elements of the backing array. In neither case is the answer the stored
  list or an error response; a slice without spare capacity always panics.
\<close>

theorem ListTags_limit_beyond_length:
  assumes "store_GetImageTags E (namespace_of ctx) = Inr tags"
      and "ParseInt (QueryParam ctx ''n'') 32 = Inr n"
      and "int (length (elems tags)) < n"
  shows "ListTags E ctx =
           (if int (length (elems tags) + length (spare tags)) < n
            then Panic ''slice bounds out of range''
            else Returns \<lparr>status = StatusOK, headers = [],
                           payload = JSONTags (namespace_of ctx)
                             (JArray
                                (elems tags @
                                 take (nat n - length (elems tags)) (spare tags)))\<rparr>) \<and>
         ListTags E ctx \<noteq>
           Returns \<lparr>status = StatusOK, headers = [],
                    payload = JSONTags (namespace_of ctx) (JArray (elems tags))\<rparr> \<and>
         ListTags E ctx \<noteq>
           Returns \<lparr>status = StatusOK, headers = [],
                    payload = JSONTags (namespace_of ctx) (json_Marshal tags)\<rparr> \<and>
         (\<forall>resp. ListTags E ctx = Returns resp \<longrightarrow>
                   status resp = StatusOK \<and>
                   (\<exists>ts. payload resp = JSONTags (namespace_of ctx) (JArray ts) \<and>
                         length (elems tags) < length ts)) \<and>
         (spare tags = [] \<longrightarrow> ListTags E ctx = Panic ''slice bounds out of range'')"
proof -
  from assms(3) have pos: "0 < n" by linarith
  note eq = ListTags_reslice [OF assms(1,2) pos]
  from assms(3) have len: "length (elems tags) < nat n" by linarith
  show ?thesis
  proof (cases "int (length (elems tags) + length (spare tags)) < n")
    case True
    with eq have "ListTags E ctx = Panic ''slice bounds out of range''" by simp
    with True show ?thesis by simp
  next
    case False
    with eq have r: "ListTags E ctx =
        Returns \<lparr>status = StatusOK, headers = [],
                 payload = JSONTags (namespace_of ctx)
                             (JArray (take (nat n) (elems tags @ spare tags)))\<rparr>"
      by simp
    from len have t: "take (nat n) (elems tags @ spare tags) =
                      elems tags @ take (nat n - length (elems tags)) (spare tags)"
      by simp
    from False assms(3) have "0 < length (spare tags)" by linarith
    hence s: "spare tags \<noteq> []" by simp
    from len have "0 < nat n - length (elems tags)" by simp
    with s have "0 < length (take (nat n - length (elems tags)) (spare tags))"
      by simp
    hence l: "length (elems tags) <
       length (elems tags @ take (nat n - length (elems tags)) (spare tags))"
      by simp
    have ne: "elems tags @ take (nat n - length (elems tags)) (spare tags) \<noteq> elems tags"
      using l by auto
    from s obtain es sp where sl: "tags = Slice es sp"
      by (cases tags) auto
    have m: "json_Marshal tags = JArray (elems tags)"
      by (simp add: sl json_Marshal_def)
    show ?thesis
      using False s l ne by (simp add: r t m)
  qed
qed

theorem ListTags_limit_beyond_length_witness:
  "ListTags E_ok (tags_request ''5'') = Panic ''slice bounds out of range'' \<and>
   ListTags E_ok (tags_request ''4'') =
     Returns \<lparr>status = StatusOK, headers = [],
              payload = JSONTags ''alice/app'' (JArray [''v1'', ''v2'', ''latest'', []])\<rparr>"
proof -
  have t: "\<And>l. store_GetImageTags E_ok (namespace_of (tags_request l)) =
             Inr (Slice [''v1'', ''v2'', ''latest''] [[]])"
    by (simp add: E_ok_def)
  have p5: "ParseInt (QueryParam (tags_request ''5'') ''n'') 32 = Inr 5"
   and p4: "ParseInt (QueryParam (tags_request ''4'') ''n'') 32 = Inr 4"
    by (simp_all add: tags_request_def request_defs scan_defs)
  have ns: "\<And>l. namespace_of (tags_request l) = ''alice/app''"
    by (simp add: tags_request_def request_defs)
  have c5: "int (length (elems (Slice [''v1'', ''v2'', ''latest''] [[]]))) < 5"
   and c4: "int (length (elems (Slice [''v1'', ''v2'', ''latest''] [[]]))) < 4"
    by simp_all
  have "ListTags E_ok (tags_request ''5'') = Panic ''slice bounds out of range''"
    using ListTags_limit_beyond_length [OF t p5 c5] by simp
  moreover
  have "ListTags E_ok (tags_request ''4'') =
     Returns \<lparr>status = StatusOK, headers = [],
              payload = JSONTags ''alice/app'' (JArray [''v1'', ''v2'', ''latest'', []])\<rparr>"
    using ListTags_limit_beyond_length [OF t p4 c4] by (simp add: ns)
  ultimately show ?thesis by simp
qed
section \<open>Properties of pulling a layer\<close>

lemma PullLayer_downloaded:
  assumes "store_GetLayer E (Param ctx ''digest'') = Inr layer"
      and "LayerV2_SkynetLink layer \<noteq> []"
      and "skynet_Download E (LayerV2_SkynetLink layer) = Inr (bz, None)"
  shows "PullLayer E ctx =
           (if digest E bz \<noteq> Param ctx ''digest'' then
              JSONBlob StatusNotFound
                (registry_errorResponse RegistryErrorCodeBlobUploadUnknown
                   ''client digest is different than computed digest''
                   [(''clientDigest'', Param ctx ''digest''), (''computedDigest'', digest E bz)])
            else
              \<lparr>status = StatusOK,
               headers = [(''Content-Length'', Itoa (int (length bz))),
                          (''Docker-Content-Digest'', digest E bz)],
               payload = BlobBody ''application/octet-stream'' bz\<rparr>)"
  using assms by (simp add: PullLayer_def Let_def)

lemma PullLayer_not_downloaded:
  assumes "\<not> (\<exists>layer bz. store_GetLayer E (Param ctx ''digest'') = Inr layer \<and>
               LayerV2_SkynetLink layer \<noteq> [] \<and>
               skynet_Download E (LayerV2_SkynetLink layer) = Inr (bz, None))"
  shows "status (PullLayer E ctx) \<noteq> StatusOK"
proof (cases "store_GetLayer E (Param ctx ''digest'')")
  case (Inl err)
  then show ?thesis by (simp add: PullLayer_def Let_def JSONBlob_def status_defs)
next
  case (Inr layer)
  show ?thesis
  proof (cases "LayerV2_SkynetLink layer = []")
    case True
    with Inr show ?thesis by (simp add: PullLayer_def Let_def JSONBlob_def status_defs)
  next
    case False
    show ?thesis
    proof (cases "skynet_Download E (LayerV2_SkynetLink layer)")
      case (Inl err)
      with Inr False show ?thesis
        by (simp add: PullLayer_def Let_def JSONBlob_def status_defs)
    next
      case dl: (Inr res)
      obtain bz e where res: "res = (bz, e)" by (cases res)
      with assms Inr False dl obtain err where "e = Some err" by (cases e) auto
      with Inr False dl res show ?thesis
        by (simp add: PullLayer_def Let_def JSONBlob_def status_defs)
    qed
  qed
qed

text \<open>
  C8. \<^verbatim>\<open>PullLayer\<close> answers 200 only when the digest it computes over the bytes it
  fetched equals the digest of the request; the body is then those bytes and
  \<^verbatim>\<open>Docker-Content-Digest\<close> the computed digest. When the bytes were fetched and
  their digest differs, the answer is an error envelope whose one entry has the code
  \<open>BLOB_UPLOAD_UNKNOWN\<close> (with status 404), and the bytes are not served.
\<close>

theorem PullLayer_digest_check:
  fixes E :: env and ctx :: request
  defines "d \<equiv> Param ctx ''digest''"
  shows "(status (PullLayer E ctx) = 200 \<longrightarrow>
           (\<exists>layer bz. store_GetLayer E d = Inr layer \<and>
                       skynet_Download E (LayerV2_SkynetLink layer) = Inr (bz, None) \<and>
                       digest E bz = d \<and>
                       PullLayer E ctx =
                         \<lparr>status = 200,
                          headers = [(''Content-Length'', Itoa (int (length bz))),
                                     (''Docker-Content-Digest'', digest E bz)],
                          payload = BlobBody ''application/octet-stream'' bz\<rparr>)) \<and>
         (\<forall>layer bz. store_GetLayer E d = Inr layer \<and> LayerV2_SkynetLink layer \<noteq> [] \<and>
                     skynet_Download E (LayerV2_SkynetLink layer) = Inr (bz, None) \<and>
                     digest E bz \<noteq> d \<longrightarrow>
               PullLayer E ctx =
                 \<lparr>status = 404, headers = [],
                  payload = JSONErrors
                    [\<lparr>Code = ''BLOB_UPLOAD_UNKNOWN'',
                      Message = ''client digest is different than computed digest'',
                      Detail = [(''clientDigest'', d),
                                (''computedDigest'', digest E bz)]\<rparr>]\<rparr>)"
proof (intro conjI impI allI)
  assume "status (PullLayer E ctx) = 200"
  then have ok: "status (PullLayer E ctx) = StatusOK"
    by (simp add: status_defs)
  with PullLayer_not_downloaded [of E ctx]
  obtain layer bz where g: "store_GetLayer E (Param ctx ''digest'') = Inr layer"
    and l: "LayerV2_SkynetLink layer \<noteq> []"
    and dl: "skynet_Download E (LayerV2_SkynetLink layer) = Inr (bz, None)"
    by blast
  note eq = PullLayer_downloaded [OF g l dl]
  have m: "digest E bz = Param ctx ''digest''"
  proof (rule ccontr)
    assume "digest E bz \<noteq> Param ctx ''digest''"
    with eq ok show False by (simp add: JSONBlob_def status_defs)
  qed
  with eq g dl show "\<exists>layer bz. store_GetLayer E d = Inr layer \<and>
                       skynet_Download E (LayerV2_SkynetLink layer) = Inr (bz, None) \<and>
                       digest E bz = d \<and>
                       PullLayer E ctx =
                         \<lparr>status = 200,
                          headers = [(''Content-Length'', Itoa (int (length bz))),
                                     (''Docker-Content-Digest'', digest E bz)],
                          payload = BlobBody ''application/octet-stream'' bz\<rparr>"
    unfolding d_def by (intro exI [of _ layer] exI [of _ bz]) (simp add: status_defs)
next
  fix layer bz
  assume "store_GetLayer E d = Inr layer \<and> LayerV2_SkynetLink layer \<noteq> [] \<and>
          skynet_Download E (LayerV2_SkynetLink layer) = Inr (bz, None) \<and> digest E bz \<noteq> d"
  then show "PullLayer E ctx =
                 \<lparr>status = 404, headers = [],
                  payload = JSONErrors
                    [\<lparr>Code = ''BLOB_UPLOAD_UNKNOWN'',
                      Message = ''client digest is different than computed digest'',
                      Detail = [(''clientDigest'', d),
                                (''computedDigest'', digest E bz)]\<rparr>]\<rparr>"
    unfolding d_def using PullLayer_downloaded [of E ctx layer bz]
    by (simp add: JSONBlob_def registry_errorResponse_def
          RegistryErrorCodeBlobUploadUnknown_def status_defs)
qed

theorem PullLayer_digest_check_witness:
  "PullLayer E_ok (blob_request ''GET'' ''sha256:hello'') =
     \<lparr>status = 200,
      headers = [(''Content-Length'', ''5''), (''Docker-Content-Digest'', ''sha256:hello'')],
      payload = BlobBody ''application/octet-stream'' ''hello''\<rparr> \<and>
   PullLayer (E_ok\<lparr>skynet_Download := (\<lambda>link. Inr (''jello'', None))\<rparr>)
       (blob_request ''GET'' ''sha256:hello'') =
     \<lparr>status = 404, headers = [],
      payload = JSONErrors
        [\<lparr>Code = ''BLOB_UPLOAD_UNKNOWN'',
          Message = ''client digest is different than computed digest'',
          Detail = [(''clientDigest'', ''sha256:hello''),
                    (''computedDigest'', ''sha256:jello'')]\<rparr>]\<rparr>"
proof -
  let ?ctx = "blob_request ''GET'' ''sha256:hello''"
  let ?E' = "E_ok\<lparr>skynet_Download := (\<lambda>link. Inr (''jello'', None))\<rparr>"
  let ?layer = "\<lparr>LayerV2_MediaType = [], LayerV2_Digest = ''sha256:hello'',
                  LayerV2_SkynetLink = ''sia://sha256:hello'', LayerV2_UUID = ''uuid-0'',
                  LayerV2_BlobDigests = [''sha256:f1'', ''sha256:f2''], LayerV2_Size = 5\<rparr>"
  have d: "Param ?ctx ''digest'' = ''sha256:hello''"
    by (simp add: blob_request_def request_defs)
  have ok: "status (PullLayer E_ok ?ctx) = 200"
    by (simp add: PullLayer_def Let_def d E_ok_def example_digest_def status_defs)
  from PullLayer_digest_check [of E_ok ?ctx] ok
  obtain layer bz where g: "store_GetLayer E_ok (Param ?ctx ''digest'') = Inr layer"
     and dl: "skynet_Download E_ok (LayerV2_SkynetLink layer) = Inr (bz, None)"
     and eq: "PullLayer E_ok ?ctx =
                \<lparr>status = 200,
                 headers = [(''Content-Length'', Itoa (int (length bz))),
                            (''Docker-Content-Digest'', digest E_ok bz)],
                 payload = BlobBody ''application/octet-stream'' bz\<rparr>"
    by blast
  from g have "layer = ?layer" by (simp add: d E_ok_def)
  with dl have "bz = ''hello''" by (simp add: E_ok_def)
  with eq have first: "PullLayer E_ok ?ctx =
     \<lparr>status = 200,
      headers = [(''Content-Length'', ''5''), (''Docker-Content-Digest'', ''sha256:hello'')],
      payload = BlobBody ''application/octet-stream'' ''hello''\<rparr>"
    by (simp add: E_ok_def example_digest_def Itoa_def digits.simps)
  have g': "store_GetLayer ?E' (Param ?ctx ''digest'') = Inr ?layer"
    by (simp add: d E_ok_def)
  have "PullLayer ?E' ?ctx =
     \<lparr>status = 404, headers = [],
      payload = JSONErrors
        [\<lparr>Code = ''BLOB_UPLOAD_UNKNOWN'',
          Message = ''client digest is different than computed digest'',
          Detail = [(''clientDigest'', ''sha256:hello''),
                    (''computedDigest'', ''sha256:jello'')]\<rparr>]\<rparr>"
    using PullLayer_digest_check [of ?E' ?ctx] g'
    by (simp add: d E_ok_def example_digest_def)
  with first show ?thesis by simp
qed
section \<open>Properties of pushing a manifest\<close>

text \<open>
  C9. A manifest push answered 201 has made exactly these calls, in this order: the upload
  of the manifest bytes to the object store, \<^verbatim>\<open>NewTxn\<close>, \<^verbatim>\<open>SetManifest\<close>,
  \<^verbatim>\<open>SetConfig\<close> and \<^verbatim>\<open>Commit\<close>, the three on the one transaction, and the link
  recorded in the config row is the one the upload returned. In every run, a
  \<^verbatim>\<open>Commit\<close> among the calls comes after the upload, which succeeded.
\<close>

theorem PushManifest_order:
  fixes E :: env and ctx :: request and r :: registry
  defines "body \<equiv> fst (Body ctx)"
  defines "up \<equiv> Upload (namespace_of ctx @ ''/manifests'') (digest E body) body"
  shows "(status (fst (PushManifest E ctx r)) = StatusCreated \<longrightarrow>
           (\<exists>manifest skylink t.
              json_Unmarshal E body = Inr manifest \<and>
              store_NewTxn E = (t, None) \<and>
              skynet_Upload E (namespace_of ctx @ ''/manifests'') (digest E body) body
                = Inr skylink \<and>
              calls (snd (PushManifest E ctx r)) =
                calls r @
                [up, NewTxn,
                 SetManifest t
                   \<lparr>ImageManifestV2_Uuid = uuid_NewString E,
                    ImageManifestV2_Namespace = namespace_of ctx,
                    ImageManifestV2_MediaType = [], ImageManifestV2_SchemaVersion = 2\<rparr>,
                 SetConfig t
                   \<lparr>ConfigV2_UUID = uuid_New E, ConfigV2_Namespace = namespace_of ctx,
                    ConfigV2_Reference = Param ctx ''reference'',
                    ConfigV2_Digest = digest E body,
                    ConfigV2_Skylink = skylink,
                    ConfigV2_MediaType = Header_Get ctx ''Content-Type'',
                    ConfigV2_Layers = ImageManifest_Layers manifest, ConfigV2_Size = 0\<rparr>,
                 Commit t])) \<and>
         (\<forall>t. Commit t \<in> set (drop (length (calls r)) (calls (snd (PushManifest E ctx r)))) \<longrightarrow>
           (\<exists>skylink rest.
              skynet_Upload E (namespace_of ctx @ ''/manifests'') (digest E body) body
                = Inr skylink \<and>
              drop (length (calls r)) (calls (snd (PushManifest E ctx r))) = up # rest \<and>
              Commit t \<in> set rest))"
proof (cases "snd (Body ctx)")
  case (Some err)
  then show ?thesis
    by (simp add: PushManifest_def Let_def status_defs)
next
  case None
  note b = None
  show ?thesis
  proof (cases "json_Unmarshal E (fst (Body ctx))")
    case (Inl err)
    with b show ?thesis
      by (simp add: PushManifest_def Let_def JSONBlob_def status_defs)
  next
    case (Inr manifest)
    note j = Inr
    show ?thesis
    proof (cases "skynet_Upload E (namespace_of ctx @ ''/manifests'')
                    (digest E (fst (Body ctx))) (fst (Body ctx))")
      case (Inl err)
      with b j show ?thesis
        by (simp add: PushManifest_def Let_def JSONBlob_def status_defs body_def up_def)
    next
      case (Inr skylink)
      note u = Inr
      obtain t e where n: "store_NewTxn E = (t, e)"
        by (cases "store_NewTxn E")
      show ?thesis
      proof (cases e)
        case (Some err)
        with b j u n show ?thesis
          by (simp add: PushManifest_def Let_def JSONBlob_def status_defs body_def up_def)
      next
        case None
        note n' = n [unfolded None]
        show ?thesis
        proof (cases "store_SetManifest E t
                   \<lparr>ImageManifestV2_Uuid = uuid_NewString E,
                    ImageManifestV2_Namespace = namespace_of ctx,
                    ImageManifestV2_MediaType = [], ImageManifestV2_SchemaVersion = 2\<rparr>")
          case (Some err)
          with b j u n' show ?thesis
            by (simp add: PushManifest_def Let_def JSONBlob_def status_defs body_def up_def)
        next
          case None
          note m = None
          show ?thesis
          proof (cases "store_SetConfig E t
                   \<lparr>ConfigV2_UUID = uuid_New E, ConfigV2_Namespace = namespace_of ctx,
                    ConfigV2_Reference = Param ctx ''reference'',
                    ConfigV2_Digest = digest E (fst (Body ctx)),
                    ConfigV2_Skylink = skylink,
                    ConfigV2_MediaType = Header_Get ctx ''Content-Type'',
                    ConfigV2_Layers = ImageManifest_Layers manifest, ConfigV2_Size = 0\<rparr>")
            case (Some err)
            with b j u n' m show ?thesis
              by (simp add: PushManifest_def Let_def JSONBlob_def status_defs body_def up_def)
          next
            case None
            note c = None
            show ?thesis
            proof (cases "store_Commit E t")
              case (Some err)
              with b j u n' m c show ?thesis
                by (simp add: PushManifest_def Let_def JSONBlob_def status_defs body_def up_def)
            next
              case None
              with b j u n' m c show ?thesis
                by (simp add: PushManifest_def Let_def JSONBlob_def status_defs body_def up_def)
            qed
          qed
        qed
      qed
    qed
  qed
qed

theorem PushManifest_order_witness:
  "status (fst (PushManifest E_ok (put_manifest ''dave'') r_empty)) = StatusCreated \<and>
   calls (snd (PushManifest E_ok (put_manifest ''dave'') r_empty)) =
     [Upload ''dave/app/manifests'' ''sha256:{}'' ''{}'', NewTxn,
      SetManifest (Txn 7)
        \<lparr>ImageManifestV2_Uuid = ''uuid-2'', ImageManifestV2_Namespace = ''dave/app'',
         ImageManifestV2_MediaType = [], ImageManifestV2_SchemaVersion = 2\<rparr>,
      SetConfig (Txn 7)
        \<lparr>ConfigV2_UUID = ''uuid-1'', ConfigV2_Namespace = ''dave/app'',
         ConfigV2_Reference = ''latest'', ConfigV2_Digest = ''sha256:{}'',
         ConfigV2_Skylink = ''sia://sha256:{}'',
         ConfigV2_MediaType = ''application/vnd.docker.distribution.manifest.v2+json'',
         ConfigV2_Layers = [''sha256:l1'', ''sha256:l2''], ConfigV2_Size = 0\<rparr>,
      Commit (Txn 7)]"
proof -
  let ?ctx = "put_manifest ''dave''"
  have ok: "status (fst (PushManifest E_ok ?ctx r_empty)) = StatusCreated"
    by (simp add: PushManifest_def Let_def put_manifest_def E_ok_def)
  from PushManifest_order [of E_ok ?ctx r_empty] ok
  obtain manifest skylink t where
        j: "json_Unmarshal E_ok (fst (Body ?ctx)) = Inr manifest"
    and n: "store_NewTxn E_ok = (t, None)"
    and u: "skynet_Upload E_ok (namespace_of ?ctx @ ''/manifests'')
              (digest E_ok (fst (Body ?ctx))) (fst (Body ?ctx)) = Inr skylink"
    and c: "calls (snd (PushManifest E_ok ?ctx r_empty)) =
              calls r_empty @
              [Upload (namespace_of ?ctx @ ''/manifests'') (digest E_ok (fst (Body ?ctx)))
                 (fst (Body ?ctx)),
               NewTxn,
               SetManifest t
                 \<lparr>ImageManifestV2_Uuid = uuid_NewString E_ok,
                  ImageManifestV2_Namespace = namespace_of ?ctx,
                  ImageManifestV2_MediaType = [], ImageManifestV2_SchemaVersion = 2\<rparr>,
               SetConfig t
                 \<lparr>ConfigV2_UUID = uuid_New E_ok, ConfigV2_Namespace = namespace_of ?ctx,
                  ConfigV2_Reference = Param ?ctx ''reference'',
                  ConfigV2_Digest = digest E_ok (fst (Body ?ctx)),
                  ConfigV2_Skylink = skylink,
                  ConfigV2_MediaType = Header_Get ?ctx ''Content-Type'',
                  ConfigV2_Layers = ImageManifest_Layers manifest, ConfigV2_Size = 0\<rparr>,
               Commit t]"
    by blast
  from j have "manifest = \<lparr>ImageManifest_Layers = [''sha256:l1'', ''sha256:l2'']\<rparr>"
    by (simp add: E_ok_def)
  moreover from n have "t = Txn 7"
    by (simp add: E_ok_def)
  moreover from u have "skylink = ''sia://sha256:{}''"
    by (simp add: E_ok_def example_digest_def put_manifest_def)
  ultimately show ?thesis
    using ok c
    by (simp add: E_ok_def example_digest_def put_manifest_def r_empty_def request_defs)
qed

end
